theory Spec2Isabelle
  imports Complex_Main
begin

section \<open>Values of the program\<close>

text \<open>
  The endpoint \<^verbatim>\<open>api/xsol-metrics.py\<close> works on decoded JSON documents. A decoded
  document is a Python value: \<^verbatim>\<open>None\<close>, a bool, a number, a str, a list or a dict with
  string keys. Numbers are modelled as real numbers: rounding, overflow and NaN of Python's
  floats are outside the model, and Python's int and float are one type here.
  A dict is an association list in insertion order; a decoded dict has no duplicate key.
\<close>

datatype json =
    JNull
  | JBool bool
  | JNum real
  | JStr string
  | JArr "json list"
  | JObj "(string \<times> json) list"

type_synonym dict = "(string \<times> json) list"

text \<open>
  The exceptions that can occur. \<open>HTTPError\<close> is \<^verbatim>\<open>urllib.error.HTTPError\<close> with
  its status code and its \<^verbatim>\<open>str(e)\<close>; \<open>OtherError\<close> is any other \<^verbatim>\<open>Exception\<close> raised while
  a response is opened, read, decoded and parsed (URLError, timeout, UnicodeDecodeError,
  JSONDecodeError) with its \<^verbatim>\<open>str(e)\<close>; \<open>Exception\<close> is \<^verbatim>\<open>raise Exception(msg)\<close> of the
  program itself; the others are raised by the interpreter.
\<close>

datatype exn =
    HTTPError int string
  | OtherError string
  | KeyError string
  | TypeError
  | AttributeError
  | ValueError
  | ZeroDivisionError
  | Exception string

text \<open>\<^verbatim>\<open>except urllib.error.HTTPError as e\<close>: is the exception an HTTPError, and with which code.\<close>

fun http_code :: "exn \<Rightarrow> int option" where
  "http_code (HTTPError code m) = Some code"
| "http_code (OtherError m) = None"
| "http_code (KeyError k) = None"
| "http_code TypeError = None"
| "http_code AttributeError = None"
| "http_code ValueError = None"
| "http_code ZeroDivisionError = None"
| "http_code (Exception m) = None"

text \<open>A request as \<^verbatim>\<open>urllib.request.Request\<close> and \<^verbatim>\<open>urlopen\<close> receive it: the payload is the
  document before \<^verbatim>\<open>json.dumps\<close>, absent for a GET.\<close>

record request =
  req_url :: string
  req_data :: "json option"
  req_headers :: "(string \<times> string) list"
  req_timeout :: nat

text \<open>
  What the program does not decide: the network, the random generator, the clock and the
  interpreter's texts. \<open>urlopen w n rq\<close> is the outcome of the request \<open>rq\<close> when it is the
  \<open>n\<close>-th request of the run (from 0): the decoded body, or the exception raised by
  \<^verbatim>\<open>urlopen\<close>, \<^verbatim>\<open>read\<close>, \<^verbatim>\<open>decode\<close> or \<^verbatim>\<open>json.loads\<close>. \<open>uniform w n\<close> is the \<open>n\<close>-th value
  of \<^verbatim>\<open>random.uniform(0, 1)\<close>. \<open>float_str\<close> is Python's \<^verbatim>\<open>float\<close> on a str (\<open>None\<close>: ValueError).
  \<open>utcnow\<close> is \<^verbatim>\<open>datetime.utcnow().isoformat()\<close>. \<open>interp_msg\<close> is \<^verbatim>\<open>str(e)\<close> of an exception
  raised by the interpreter.
\<close>

record world =
  urlopen :: "nat \<Rightarrow> request \<Rightarrow> exn + json"
  uniform :: "nat \<Rightarrow> real"
  float_str :: "string \<Rightarrow> real option"
  utcnow :: string
  interp_msg :: "exn \<Rightarrow> string"

text \<open>The effects of a run so far: the requests sent (oldest first), the durations passed to
  \<^verbatim>\<open>time.sleep\<close>, and the number of random values drawn.\<close>

record state =
  sent :: "request list"
  sleeps :: "real list"
  draws :: nat

definition send :: "world \<Rightarrow> request \<Rightarrow> state \<Rightarrow> (exn + json) \<times> state" where
  "send w rq s = (urlopen w (length (sent s)) rq, s\<lparr>sent := sent s @ [rq]\<rparr>)"

definition sleep :: "real \<Rightarrow> state \<Rightarrow> state" where
  "sleep t s = s\<lparr>sleeps := sleeps s @ [t]\<rparr>"

definition random_uniform :: "world \<Rightarrow> state \<Rightarrow> real \<times> state" where
  "random_uniform w s = (uniform w (draws s), s\<lparr>draws := Suc (draws s)\<rparr>)"

fun str_exn :: "world \<Rightarrow> exn \<Rightarrow> string" where
  "str_exn w (HTTPError code m) = m"
| "str_exn w (OtherError m) = m"
| "str_exn w (Exception m) = m"
| "str_exn w e = interp_msg w e"

subsection \<open>Python operations on decoded values\<close>

text \<open>\<^verbatim>\<open>d[k]\<close> with a str key: a dict gives the value or KeyError, anything else TypeError.\<close>

fun subscript :: "json \<Rightarrow> string \<Rightarrow> exn + json" where
  "subscript (JObj kvs) k = (case map_of kvs k of Some v \<Rightarrow> Inr v | None \<Rightarrow> Inl (KeyError k))"
| "subscript JNull k = Inl TypeError"
| "subscript (JBool b) k = Inl TypeError"
| "subscript (JNum r) k = Inl TypeError"
| "subscript (JStr t) k = Inl TypeError"
| "subscript (JArr xs) k = Inl TypeError"

text \<open>\<^verbatim>\<open>d.get(k, default)\<close>: only a dict has the method.\<close>

fun py_get :: "json \<Rightarrow> string \<Rightarrow> json \<Rightarrow> exn + json" where
  "py_get (JObj kvs) k dflt = Inr (case map_of kvs k of Some v \<Rightarrow> v | None \<Rightarrow> dflt)"
| "py_get JNull k dflt = Inl AttributeError"
| "py_get (JBool b) k dflt = Inl AttributeError"
| "py_get (JNum r) k dflt = Inl AttributeError"
| "py_get (JStr t) k dflt = Inl AttributeError"
| "py_get (JArr xs) k dflt = Inl AttributeError"

text \<open>Truth value of a Python value, as \<^verbatim>\<open>not x\<close> tests it.\<close>

fun truthy :: "json \<Rightarrow> bool" where
  "truthy JNull = False"
| "truthy (JBool b) = b"
| "truthy (JNum r) = (r \<noteq> 0)"
| "truthy (JStr t) = (t \<noteq> [])"
| "truthy (JArr xs) = (xs \<noteq> [])"
| "truthy (JObj kvs) = (kvs \<noteq> [])"

text \<open>The number a value stands for in arithmetic: a bool counts as 1 or 0.\<close>

fun py_num :: "json \<Rightarrow> real option" where
  "py_num (JNum r) = Some r"
| "py_num (JBool b) = Some (if b then 1 else 0)"
| "py_num JNull = None"
| "py_num (JStr t) = None"
| "py_num (JArr xs) = None"
| "py_num (JObj kvs) = None"

text \<open>
  \<^verbatim>\<open>a * b\<close>, \<^verbatim>\<open>a + b\<close> and \<^verbatim>\<open>a / b\<close>. On two numbers they compute; \<^verbatim>\<open>/\<close> by zero raises
  ZeroDivisionError. With an operand that is no number the model raises TypeError at once.
  Python can build a str or a list first (\<^verbatim>\<open>"ab" * 2\<close>, \<^verbatim>\<open>"a" + "b"\<close>), but both places where
  the program does arithmetic (lines 114 to 116 and 153 to 155) divide that result in their
  next statement, which raises TypeError there, with no effect in between.
\<close>

definition py_mul :: "json \<Rightarrow> json \<Rightarrow> exn + json" where
  "py_mul a b = (case py_num a of None \<Rightarrow> Inl TypeError | Some x \<Rightarrow>
                  (case py_num b of None \<Rightarrow> Inl TypeError | Some y \<Rightarrow> Inr (JNum (x * y))))"

definition py_add :: "json \<Rightarrow> json \<Rightarrow> exn + json" where
  "py_add a b = (case py_num a of None \<Rightarrow> Inl TypeError | Some x \<Rightarrow>
                  (case py_num b of None \<Rightarrow> Inl TypeError | Some y \<Rightarrow> Inr (JNum (x + y))))"

definition py_truediv :: "json \<Rightarrow> json \<Rightarrow> exn + json" where
  "py_truediv a b = (case py_num a of None \<Rightarrow> Inl TypeError | Some x \<Rightarrow>
                      (case py_num b of None \<Rightarrow> Inl TypeError | Some y \<Rightarrow>
                         if y = 0 then Inl ZeroDivisionError else Inr (JNum (x / y))))"

text \<open>\<^verbatim>\<open>float(x)\<close>.\<close>

fun py_float :: "world \<Rightarrow> json \<Rightarrow> exn + real" where
  "py_float w (JNum r) = Inr r"
| "py_float w (JBool b) = Inr (if b then 1 else 0)"
| "py_float w (JStr t) = (case float_str w t of Some r \<Rightarrow> Inr r | None \<Rightarrow> Inl ValueError)"
| "py_float w JNull = Inl TypeError"
| "py_float w (JArr xs) = Inl TypeError"
| "py_float w (JObj kvs) = Inl TypeError"

section \<open>The program\<close>

definition HYLO_API :: string where
  "HYLO_API = ''https://api.hylo.so/stats''"

definition JUPITER_PRICE_API :: string where
  "JUPITER_PRICE_API = ''https://lite-api.jup.ag/price/v3''"

definition SOL_MINT :: string where
  "SOL_MINT = ''So11111111111111111111111111111111111111112''"

definition USDC_MINT :: string where
  "USDC_MINT = ''EPjFWdd5AufqSSqeM2qN1xzybapC8G4wEGGkZwyTDt1v''"

definition XSOL_MINT :: string where
  "XSOL_MINT = ''4sWNB8zGWHkh6UnmwiEtzNxL4XrN7uK9tosbESbJFfVs''"

definition SOLANA_RPC_ENDPOINTS :: "string list" where
  "SOLANA_RPC_ENDPOINTS = [''https://api.mainnet-beta.solana.com'', ''https://rpc.ankr.com/solana'']"

subsection \<open>fetch_with_retry (lines 29 to 48)\<close>

text \<open>
  One pass through the body of \<^verbatim>\<open>for attempt in range(max_retries)\<close>. \<open>Some r\<close>: the function
  leaves with \<open>r\<close> (\<open>Inr\<close> a returned value, \<open>Inl\<close> a raised exception); \<open>None\<close>: \<^verbatim>\<open>continue\<close>.
\<close>

definition attempt_body ::
  "world \<Rightarrow> request \<Rightarrow> int \<Rightarrow> nat \<Rightarrow> state \<Rightarrow> (exn + json) option \<times> state" where
  "attempt_body w rq max_retries attempt s =
     (case send w rq s of
        (Inr j, s1) \<Rightarrow> (Some (Inr j), s1)
      | (Inl e, s1) \<Rightarrow>
          (case http_code e of
             Some code \<Rightarrow>
               if code = 429 \<and> int attempt < max_retries - 1 then
                 (case random_uniform w s1 of
                    (u, s2) \<Rightarrow> (None, sleep (2 ^ attempt + u) s2))
               else (Some (Inl e), s1)
           | None \<Rightarrow>
               if int attempt < max_retries - 1 then (None, sleep 1 s1)
               else (Some (Inl e), s1)))"

text \<open>The loop over the attempts still to make; when they are used up, line 48 returns
  \<^verbatim>\<open>None\<close>, which is the value \<open>JNull\<close>.\<close>

fun for_attempts ::
  "world \<Rightarrow> request \<Rightarrow> int \<Rightarrow> nat list \<Rightarrow> state \<Rightarrow> (exn + json) \<times> state" where
  "for_attempts w rq max_retries [] s = (Inr JNull, s)"
| "for_attempts w rq max_retries (attempt # rest) s =
     (case attempt_body w rq max_retries attempt s of
        (Some r, s1) \<Rightarrow> (r, s1)
      | (None, s1) \<Rightarrow> for_attempts w rq max_retries rest s1)"

text \<open>\<^verbatim>\<open>headers or {}\<close>, and the request of line 33 with the timeout of line 34.\<close>

definition get_request :: "string \<Rightarrow> (string \<times> string) list option \<Rightarrow> request" where
  "get_request u hdrs =
     \<lparr>req_url = u, req_data = None,
      req_headers = (case hdrs of None \<Rightarrow> [] | Some h \<Rightarrow> h), req_timeout = 15\<rparr>"

definition fetch_with_retry ::
  "world \<Rightarrow> string \<Rightarrow> (string \<times> string) list option \<Rightarrow> int \<Rightarrow> state \<Rightarrow> (exn + json) \<times> state" where
  "fetch_with_retry w u hdrs max_retries s =
     for_attempts w (get_request u hdrs) max_retries [0..<nat max_retries] s"

subsection \<open>The price lookups (lines 50 to 60)\<close>

definition fetch_sol_price :: "world \<Rightarrow> state \<Rightarrow> (exn + json) \<times> state" where
  "fetch_sol_price w s =
     (case fetch_with_retry w
             (JUPITER_PRICE_API @ ''?ids='' @ SOL_MINT @ ''&vsToken='' @ USDC_MINT) None 3 s of
        (Inl e, s1) \<Rightarrow> (Inl e, s1)
      | (Inr data, s1) \<Rightarrow>
          (case py_get data SOL_MINT (JObj []) of
             Inl e \<Rightarrow> (Inl e, s1)
           | Inr d \<Rightarrow> (py_get d ''usdPrice'' (JNum 0), s1)))"

definition fetch_xsol_price :: "world \<Rightarrow> state \<Rightarrow> (exn + json) \<times> state" where
  "fetch_xsol_price w s =
     (case fetch_with_retry w
             (JUPITER_PRICE_API @ ''?ids='' @ XSOL_MINT @ ''&vsToken='' @ USDC_MINT) None 3 s of
        (Inl e, s1) \<Rightarrow> (Inl e, s1)
      | (Inr data, s1) \<Rightarrow>
          (case py_get data XSOL_MINT (JObj []) of
             Inl e \<Rightarrow> (Inl e, s1)
           | Inr d \<Rightarrow> (py_get d ''usdPrice'' (JNum 0), s1)))"

subsection \<open>fetch_token_supply (lines 62 to 84)\<close>

definition rpc_request :: "string \<Rightarrow> string \<Rightarrow> request" where
  "rpc_request rpc mint_address =
     \<lparr>req_url = rpc,
      req_data = Some (JObj [(''jsonrpc'', JStr ''2.0''), (''id'', JNum 1),
                             (''method'', JStr ''getTokenSupply''),
                             (''params'', JArr [JStr mint_address])]),
      req_headers = [(''Content-Type'', ''application/json'')],
      req_timeout = 10\<rparr>"

text \<open>Line 81: \<^verbatim>\<open>float(data['result']['value']['uiAmount'])\<close>.\<close>

definition ui_amount :: "world \<Rightarrow> json \<Rightarrow> exn + real" where
  "ui_amount w data =
     (case subscript data ''result'' of Inl e \<Rightarrow> Inl e | Inr r \<Rightarrow>
        (case subscript r ''value'' of Inl e \<Rightarrow> Inl e | Inr v \<Rightarrow>
           (case subscript v ''uiAmount'' of Inl e \<Rightarrow> Inl e | Inr a \<Rightarrow> py_float w a)))"

text \<open>The loop over the endpoints: every exception of an endpoint is swallowed and the next
  one is tried; \<open>None\<close> is the \<^verbatim>\<open>return None\<close> of line 84.\<close>

fun for_endpoints :: "world \<Rightarrow> string \<Rightarrow> string list \<Rightarrow> state \<Rightarrow> real option \<times> state" where
  "for_endpoints w mint_address [] s = (None, s)"
| "for_endpoints w mint_address (rpc # rest) s =
     (case send w (rpc_request rpc mint_address) s of
        (Inl e, s1) \<Rightarrow> for_endpoints w mint_address rest s1
      | (Inr data, s1) \<Rightarrow>
          (case ui_amount w data of
             Inl e \<Rightarrow> for_endpoints w mint_address rest s1
           | Inr x \<Rightarrow> (Some x, s1)))"

definition fetch_token_supply :: "world \<Rightarrow> string \<Rightarrow> state \<Rightarrow> real option \<times> state" where
  "fetch_token_supply w mint_address s = for_endpoints w mint_address SOLANA_RPC_ENDPOINTS s"

subsection \<open>fetch_hylo_api (lines 86 to 93)\<close>

definition hylo_headers :: "(string \<times> string) list" where
  "hylo_headers =
     [(''User-Agent'', ''Mozilla/5.0 (Windows NT 10.0; Win64; x64) AppleWebKit/537.36 (KHTML, like Gecko) Chrome/131.0.0.0 Safari/537.36''),
      (''Accept'', ''application/json''),
      (''Accept-Language'', ''en-US,en;q=0.9'')]"

definition fetch_hylo_api :: "world \<Rightarrow> state \<Rightarrow> (exn + json) \<times> state" where
  "fetch_hylo_api w s = fetch_with_retry w HYLO_API (Some hylo_headers) 3 s"

subsection \<open>The derived figures (lines 114 to 116 and 153 to 155, the same three statements)\<close>

definition derived :: "json \<Rightarrow> json \<Rightarrow> json \<Rightarrow> json \<Rightarrow> exn + json \<times> json \<times> json" where
  "derived HYusd_supply xSOL_price xSOL_supply SOL_price =
     (case py_mul xSOL_price xSOL_supply of Inl e \<Rightarrow> Inl e | Inr value1 \<Rightarrow>
     (case py_add HYusd_supply value1 of Inl e \<Rightarrow> Inl e | Inr Collateral_TVL \<Rightarrow>
     (case py_truediv Collateral_TVL SOL_price of Inl e \<Rightarrow> Inl e | Inr Collateral_TVL_SOL \<Rightarrow>
     (case py_mul xSOL_price xSOL_supply of Inl e \<Rightarrow> Inl e | Inr value2 \<Rightarrow>
     (case py_truediv Collateral_TVL value2 of Inl e \<Rightarrow> Inl e | Inr Effective_Leverage \<Rightarrow>
        Inr (Collateral_TVL, Collateral_TVL_SOL, Effective_Leverage))))))"

subsection \<open>fetch_blockchain_fallback (lines 95 to 132)\<close>

text \<open>\<^verbatim>\<open>not xSOL_supply\<close> holds when \<open>fetch_token_supply\<close> returned \<^verbatim>\<open>None\<close> and when it
  returned \<^verbatim>\<open>0.0\<close>.\<close>

definition fetch_blockchain_fallback :: "world \<Rightarrow> state \<Rightarrow> (exn + dict) \<times> state" where
  "fetch_blockchain_fallback w s =
     (case fetch_token_supply w XSOL_MINT s of
        (None, s1) \<Rightarrow> (Inl (Exception ''Failed to fetch xSOL supply from blockchain''), s1)
      | (Some xSOL_supply, s1) \<Rightarrow>
          if xSOL_supply = 0
          then (Inl (Exception ''Failed to fetch xSOL supply from blockchain''), s1)
          else
            (case fetch_sol_price w s1 of
               (Inl e, s2) \<Rightarrow> (Inl e, s2)
             | (Inr SOL_price, s2) \<Rightarrow>
                 (case fetch_xsol_price w s2 of
                    (Inl e, s3) \<Rightarrow> (Inl e, s3)
                  | (Inr xSOL_price, s3) \<Rightarrow>
                      if \<not> truthy SOL_price \<or> \<not> truthy xSOL_price
                      then (Inl (Exception ''Failed to fetch prices from Jupiter''), s3)
                      else
                        (case derived (JNum 18000000) xSOL_price (JNum xSOL_supply) SOL_price of
                           Inl e \<Rightarrow> (Inl e, s3)
                         | Inr (Collateral_TVL, Collateral_TVL_SOL, Effective_Leverage) \<Rightarrow>
                             (Inr [(''HYusd_supply'', JNum 18000000),
                                   (''xSOL_price'', xSOL_price),
                                   (''xSOL_supply'', JNum xSOL_supply),
                                   (''CollateralRatio'', JNull),
                                   (''SOL_price'', SOL_price),
                                   (''StabilityMode'', JObj []),
                                   (''Collateral_TVL'', Collateral_TVL),
                                   (''Collateral_TVL_SOL'', Collateral_TVL_SOL),
                                   (''Effective_Leverage'', Effective_Leverage),
                                   (''xSOL_icon_url'', JNull),
                                   (''lastFetched'', JStr (utcnow w @ ''Z'')),
                                   (''source'', JStr ''blockchain-fallback''),
                                   (''note'', JStr ''CollateralRatio unavailable - using blockchain approximation'')],
                              s3)))))"

subsection \<open>handler.do_GET (lines 135 to 194)\<close>

record response =
  status :: nat
  resp_headers :: "(string \<times> string) list"
  body :: json

text \<open>The inner \<^verbatim>\<open>try\<close> block, lines 142 to 171: \<open>Inl\<close> is the exception that line 173 catches.\<close>

definition do_GET_primary :: "world \<Rightarrow> state \<Rightarrow> (exn + dict) \<times> state" where
  "do_GET_primary w s =
     (case fetch_hylo_api w s of
        (Inl e, s1) \<Rightarrow> (Inl e, s1)
      | (Inr hylo_data, s1) \<Rightarrow>
     (case subscript hylo_data ''exchangeStats'' of Inl e \<Rightarrow> (Inl e, s1) | Inr stats \<Rightarrow>
     (case subscript stats ''stablecoinSupply'' of Inl e \<Rightarrow> (Inl e, s1) | Inr HYusd_supply \<Rightarrow>
     (case subscript stats ''levercoinNav'' of Inl e \<Rightarrow> (Inl e, s1) | Inr xSOL_price \<Rightarrow>
     (case subscript stats ''levercoinSupply'' of Inl e \<Rightarrow> (Inl e, s1) | Inr xSOL_supply \<Rightarrow>
     (case subscript stats ''collateralRatio'' of Inl e \<Rightarrow> (Inl e, s1) | Inr CollateralRatio \<Rightarrow>
     (case py_get stats ''stabilityMode'' (JObj []) of Inl e \<Rightarrow> (Inl e, s1) | Inr StabilityMode \<Rightarrow>
     (case fetch_sol_price w s1 of
        (Inl e, s2) \<Rightarrow> (Inl e, s2)
      | (Inr SOL_price, s2) \<Rightarrow>
     (case derived HYusd_supply xSOL_price xSOL_supply SOL_price of
        Inl e \<Rightarrow> (Inl e, s2)
      | Inr (Collateral_TVL, Collateral_TVL_SOL, Effective_Leverage) \<Rightarrow>
          (Inr [(''HYusd_supply'', HYusd_supply),
                (''xSOL_price'', xSOL_price),
                (''xSOL_supply'', xSOL_supply),
                (''CollateralRatio'', CollateralRatio),
                (''SOL_price'', SOL_price),
                (''StabilityMode'', StabilityMode),
                (''Collateral_TVL'', Collateral_TVL),
                (''Collateral_TVL_SOL'', Collateral_TVL_SOL),
                (''Effective_Leverage'', Effective_Leverage),
                (''xSOL_icon_url'', JNull),
                (''lastFetched'', JStr (utcnow w @ ''Z'')),
                (''source'', JStr ''hylo-api'')],
           s2))))))))))"

text \<open>Lines 178 to 183 and 186 to 194: the two responses; the body is the document given to
  \<^verbatim>\<open>json.dumps\<close>.\<close>

definition send_metrics :: "dict \<Rightarrow> response" where
  "send_metrics metrics =
     \<lparr>status = 200,
      resp_headers = [(''Content-type'', ''application/json''),
                      (''Access-Control-Allow-Origin'', ''*''),
                      (''Cache-Control'', ''public, max-age=60'')],
      body = JObj metrics\<rparr>"

definition send_error :: "world \<Rightarrow> exn \<Rightarrow> response" where
  "send_error w e =
     \<lparr>status = 500,
      resp_headers = [(''Content-type'', ''application/json''),
                      (''Access-Control-Allow-Origin'', ''*'')],
      body = JObj [(''error'', JStr (str_exn w e)),
                   (''message'', JStr ''Failed to fetch xSOL metrics''),
                   (''suggestion'', JStr ''Try again later or use cached Gist data'')]\<rparr>"

definition do_GET :: "world \<Rightarrow> state \<Rightarrow> response \<times> state" where
  "do_GET w s =
     (case do_GET_primary w s of
        (Inr metrics, s1) \<Rightarrow> (send_metrics metrics, s1)
      | (Inl hylo_error, s1) \<Rightarrow>
          (case fetch_blockchain_fallback w s1 of
             (Inr metrics, s2) \<Rightarrow> (send_metrics metrics, s2)
           | (Inl e, s2) \<Rightarrow> (send_error w e, s2)))"

subsection \<open>Reading a record\<close>

text \<open>The number that a field of a metrics record stands for, if the field is there and
  holds a number.\<close>

definition num_field :: "dict \<Rightarrow> string \<Rightarrow> real option" where
  "num_field m k = (case map_of m k of None \<Rightarrow> None | Some v \<Rightarrow> py_num v)"

section \<open>Concrete runs\<close>

text \<open>
  A world whose network answers from a script: the \<open>n\<close>-th request of the run gets the
  \<open>n\<close>-th entry, whatever the request is, and every request after the script times out.
\<close>

definition run_world :: "(exn + json) list \<Rightarrow> world" where
  "run_world answers =
     \<lparr>urlopen = (\<lambda>n rq. if n < length answers then answers ! n
                            else Inl (OtherError ''timed out'')),
      uniform = (\<lambda>n. 1 / 2),
      float_str = (\<lambda>t. None),
      utcnow = ''2024-01-01T00:00:00'',
      interp_msg = (\<lambda>e. ''interpreter error'')\<rparr>"

definition s_init :: state where
  "s_init = \<lparr>sent = [], sleeps = [], draws = 0\<rparr>"

definition timed_out :: "exn + json" where
  "timed_out = Inl (OtherError ''timed out'')"

definition hylo_doc :: "json \<Rightarrow> json" where
  "hylo_doc ratio =
     JObj [(''exchangeStats'',
            JObj [(''stablecoinSupply'', JNum 18000000), (''levercoinNav'', JNum (3 / 2)),
                  (''levercoinSupply'', JNum 1000000), (''collateralRatio'', ratio)])]"

definition price_doc :: "string \<Rightarrow> real \<Rightarrow> json" where
  "price_doc mint p = JObj [(mint, JObj [(''usdPrice'', JNum p)])]"

definition supply_doc :: "real \<Rightarrow> json" where
  "supply_doc x = JObj [(''result'', JObj [(''value'', JObj [(''uiAmount'', JNum x)])])]"

text \<open>The runs used below. \<open>primary_run\<close>: the upstream API answers, then the price API.
  \<open>fallback_run\<close>: three requests to the upstream API time out, the first RPC endpoint
  reports a supply of 1000000, the price API reports 150 and 1.5. \<open>null_ratio_run\<close>: as
  \<open>primary_run\<close>, with \<^verbatim>\<open>"collateralRatio": null\<close>. \<open>zero_supply_run\<close>: the upstream API times
  out and the first RPC endpoint reports a supply of 0. \<open>zero_price_run\<close>: the upstream API
  times out, the supply is 1000000 and the price API reports 0 for the base asset.\<close>

definition primary_run :: world where
  "primary_run = run_world [Inr (hylo_doc (JNum (6 / 5))), Inr (price_doc SOL_MINT 150)]"

definition fallback_run :: world where
  "fallback_run =
     run_world [timed_out, timed_out, timed_out, Inr (supply_doc 1000000),
                Inr (price_doc SOL_MINT 150), Inr (price_doc XSOL_MINT (3 / 2))]"

definition null_ratio_run :: world where
  "null_ratio_run = run_world [Inr (hylo_doc JNull), Inr (price_doc SOL_MINT 150)]"

definition zero_supply_run :: world where
  "zero_supply_run = run_world [timed_out, timed_out, timed_out, Inr (supply_doc 0)]"

definition zero_price_run :: world where
  "zero_price_run =
     run_world [timed_out, timed_out, timed_out, Inr (supply_doc 1000000),
                Inr (price_doc SOL_MINT 0), Inr (price_doc XSOL_MINT (3 / 2))]"

text \<open>The requests of a run, and the state after the three requests to the upstream API.\<close>

definition hylo_request :: request where
  "hylo_request = get_request HYLO_API (Some hylo_headers)"

definition sol_price_request :: request where
  "sol_price_request =
     get_request (JUPITER_PRICE_API @ ''?ids='' @ SOL_MINT @ ''&vsToken='' @ USDC_MINT) None"

definition xsol_price_request :: request where
  "xsol_price_request =
     get_request (JUPITER_PRICE_API @ ''?ids='' @ XSOL_MINT @ ''&vsToken='' @ USDC_MINT) None"

definition s_hylo_down :: state where
  "s_hylo_down = \<lparr>sent = [hylo_request, hylo_request, hylo_request], sleeps = [1, 1], draws = 0\<rparr>"

section \<open>The retry loop\<close>

lemma attempt_body_cases:
  "attempt_body w rq mr a s = (ob, s1) \<Longrightarrow>
     sent s1 = sent s @ [rq] \<and>
     (case ob of Some r \<Rightarrow> r = urlopen w (length (sent s)) rq | None \<Rightarrow> int a < mr - 1)"
  by (auto simp: attempt_body_def send_def sleep_def random_uniform_def
           split: sum.splits option.splits if_splits prod.splits)

lemma for_attempts_sent:
  "\<exists>k\<le>length as. sent (snd (for_attempts w rq mr as s)) = sent s @ replicate k rq"
proof (induction as arbitrary: s)
  case Nil
  show ?case by simp
next
  case (Cons a as)
  obtain ob s1 where ab: "attempt_body w rq mr a s = (ob, s1)"
    by (cases "attempt_body w rq mr a s")
  from attempt_body_cases [OF ab] have s1: "sent s1 = sent s @ [rq]" by simp
  show ?case
  proof (cases ob)
    case None
    from Cons.IH [of s1] obtain k where k: "k \<le> length as"
      "sent (snd (for_attempts w rq mr as s1)) = sent s1 @ replicate k rq" by blast
    have "sent (snd (for_attempts w rq mr (a # as) s)) = sent s @ replicate (Suc k) rq"
      using ab None k s1 by (simp add: replicate_append_same)
    with k(1) show ?thesis by (intro exI [of _ "Suc k"]) simp
  next
    case (Some r)
    have "sent (snd (for_attempts w rq mr (a # as) s)) = sent s @ replicate (Suc 0) rq"
      using ab Some s1 by simp
    then show ?thesis by (intro exI [of _ "Suc 0"]) simp
  qed
qed

lemma fetch_with_retry_3:
  "fetch_with_retry w u hdrs 3 s = for_attempts w (get_request u hdrs) 3 [0, 1, 2] s"
proof -
  have "[0..<nat 3] = [0, 1, 2]" by (simp add: upt_rec)
  then show ?thesis by (simp add: fetch_with_retry_def)
qed

text \<open>When the last attempt of the list cannot \<^verbatim>\<open>continue\<close>, the loop leaves through one of its
  attempts: its result is the outcome of the last request it sent.\<close>

lemma for_attempts_last:
  "\<not> int l < mr - 1 \<Longrightarrow>
   \<exists>k\<le>length as. for_attempts w rq mr (as @ [l]) s
        = (urlopen w (length (sent s) + k) rq,
           snd (for_attempts w rq mr (as @ [l]) s))
      \<and> sent (snd (for_attempts w rq mr (as @ [l]) s)) = sent s @ replicate (Suc k) rq"
proof (induction as arbitrary: s)
  case Nil
  obtain ob s1 where ab: "attempt_body w rq mr l s = (ob, s1)"
    by (cases "attempt_body w rq mr l s")
  from attempt_body_cases [OF ab] Nil obtain r where "ob = Some r"
    "r = urlopen w (length (sent s)) rq" "sent s1 = sent s @ [rq]"
    by (cases ob) auto
  with ab show ?case by simp
next
  case (Cons a as)
  obtain ob s1 where ab: "attempt_body w rq mr a s = (ob, s1)"
    by (cases "attempt_body w rq mr a s")
  from attempt_body_cases [OF ab] have s1: "sent s1 = sent s @ [rq]" by simp
  show ?case
  proof (cases ob)
    case None
    from Cons.IH [OF Cons.prems, of s1] obtain k where k: "k \<le> length as"
      "for_attempts w rq mr (as @ [l]) s1
        = (urlopen w (length (sent s1) + k) rq, snd (for_attempts w rq mr (as @ [l]) s1))"
      "sent (snd (for_attempts w rq mr (as @ [l]) s1)) = sent s1 @ replicate (Suc k) rq"
      by blast
    have eq: "for_attempts w rq mr ((a # as) @ [l]) s = for_attempts w rq mr (as @ [l]) s1"
      using ab None by simp
    have "for_attempts w rq mr ((a # as) @ [l]) s
        = (urlopen w (length (sent s) + Suc k) rq, snd (for_attempts w rq mr ((a # as) @ [l]) s))"
      using k(2) s1 unfolding eq by simp
    moreover have "sent (snd (for_attempts w rq mr ((a # as) @ [l]) s))
        = sent s @ replicate (Suc (Suc k)) rq"
      using k(3) s1 unfolding eq by (simp add: replicate_append_same)
    ultimately show ?thesis using k(1) by (intro exI [of _ "Suc k"]) simp
  next
    case (Some r)
    from attempt_body_cases [OF ab] Some have "r = urlopen w (length (sent s)) rq" by simp
    with ab Some s1 show ?thesis by (intro exI [of _ 0]) simp
  qed
qed

lemma fetch_with_retry_last_attempt:
  assumes "0 < max_retries"
  shows "\<exists>k<nat max_retries.
           fetch_with_retry w u hdrs max_retries s
             = (urlopen w (length (sent s) + k) (get_request u hdrs),
                snd (fetch_with_retry w u hdrs max_retries s))
         \<and> sent (snd (fetch_with_retry w u hdrs max_retries s))
             = sent s @ replicate (Suc k) (get_request u hdrs)"
proof -
  define n where "n = nat max_retries - 1"
  have range: "[0..<nat max_retries] = [0..<n] @ [n]"
    using assms unfolding n_def by (cases "nat max_retries") auto
  have stop: "\<not> int n < max_retries - 1"
    using assms unfolding n_def by linarith
  from for_attempts_last [OF stop, of "[0..<n]" w "get_request u hdrs" s]
  obtain k where "k \<le> n"
    "for_attempts w (get_request u hdrs) max_retries ([0..<n] @ [n]) s
       = (urlopen w (length (sent s) + k) (get_request u hdrs),
          snd (for_attempts w (get_request u hdrs) max_retries ([0..<n] @ [n]) s))"
    "sent (snd (for_attempts w (get_request u hdrs) max_retries ([0..<n] @ [n]) s))
       = sent s @ replicate (Suc k) (get_request u hdrs)"
    by auto
  moreover have "n < nat max_retries" using assms unfolding n_def by linarith
  ultimately show ?thesis
    unfolding fetch_with_retry_def range by (intro exI [of _ k]) simp
qed

lemma nth_answers:
  "urlopen (run_world answers) n rq =
     (if n < length answers then answers ! n else Inl (OtherError ''timed out''))"
  by (simp add: run_world_def)

text \<open>
  C3, as amended. In a call with the default \<open>max_retries = 3\<close> (the loop runs over the
  attempts 0, 1, 2), an attempt that fails with an exception other than an HTTPError is
  followed by \<^verbatim>\<open>time.sleep(1)\<close> and the next attempt when it is the first or the second
  attempt; on the third attempt the exception goes to the caller. An attempt that fails with
  an HTTPError whose code is not 429 is never retried: at whatever attempt it occurs, and for
  whatever \<open>max_retries\<close>, the loop ends there with that exception, without sleeping; in
  particular a call whose first attempt fails so sends one request and raises.
\<close>

theorem failed_attempt_retried_or_raised:
  assumes "urlopen w (length (sent s)) (get_request u hdrs) = Inl e"
  shows "fetch_with_retry w u hdrs 3 s0 = for_attempts w (get_request u hdrs) 3 [0, 1, 2] s0
         \<and> (http_code e = None \<longrightarrow>
              for_attempts w (get_request u hdrs) 3 (attempt # rest) s =
                (if attempt < 2
                 then for_attempts w (get_request u hdrs) 3 rest
                        (sleep 1 (s\<lparr>sent := sent s @ [get_request u hdrs]\<rparr>))
                 else (Inl e, s\<lparr>sent := sent s @ [get_request u hdrs]\<rparr>)))
         \<and> (\<forall>code. http_code e = Some code \<and> code \<noteq> 429 \<longrightarrow>
              for_attempts w (get_request u hdrs) max_retries (attempt # rest) s =
                (Inl e, s\<lparr>sent := sent s @ [get_request u hdrs]\<rparr>)
              \<and> fetch_with_retry w u hdrs 3 s =
                (Inl e, s\<lparr>sent := sent s @ [get_request u hdrs]\<rparr>))"
  using assms by (simp add: fetch_with_retry_3 attempt_body_def send_def)

theorem failed_attempt_retried_or_raised_witness:
  "fetch_with_retry (run_world []) HYLO_API None 3 s_init
     = (Inl (OtherError ''timed out''),
        \<lparr>sent = [get_request HYLO_API None, get_request HYLO_API None,
                 get_request HYLO_API None],
         sleeps = [1, 1], draws = 0\<rparr>)
   \<and> fetch_with_retry (run_world [timed_out, Inl (HTTPError 404 ''HTTP Error 404: Not Found'')])
        HYLO_API None 3 s_init
     = (Inl (HTTPError 404 ''HTTP Error 404: Not Found''),
        \<lparr>sent = [get_request HYLO_API None, get_request HYLO_API None],
         sleeps = [1], draws = 0\<rparr>)
   \<and> fetch_with_retry (run_world [Inl (HTTPError 503 ''HTTP Error 503: Service Unavailable'')])
        HYLO_API None 3 s_init
     = (Inl (HTTPError 503 ''HTTP Error 503: Service Unavailable''),
        \<lparr>sent = [get_request HYLO_API None], sleeps = [], draws = 0\<rparr>)"
proof -
  have down: "urlopen (run_world []) (length (sent s)) (get_request HYLO_API None)
                = Inl (OtherError ''timed out'')" for s
    by (simp add: nth_answers)
  have other: "http_code (OtherError ''timed out'') = None" by simp
  note all = failed_attempt_retried_or_raised [OF down]
  note unroll = all [THEN conjunct1]
  note step = all [THEN conjunct2, THEN conjunct1, rule_format, OF other]
  have first: "fetch_with_retry (run_world []) HYLO_API None 3 s_init
     = (Inl (OtherError ''timed out''),
        \<lparr>sent = [get_request HYLO_API None, get_request HYLO_API None,
                 get_request HYLO_API None],
         sleeps = [1, 1], draws = 0\<rparr>)"
    by (simp add: unroll step sleep_def s_init_def del: for_attempts.simps)
  let ?w = "run_world [timed_out, Inl (HTTPError 404 ''HTTP Error 404: Not Found'')]"
  let ?s1 = "\<lparr>sent = [get_request HYLO_API None], sleeps = [1], draws = 0\<rparr>"
  have out0: "urlopen ?w (length (sent s_init)) (get_request HYLO_API None)
                = Inl (OtherError ''timed out'')"
    by (simp add: nth_answers s_init_def timed_out_def)
  have out1: "urlopen ?w (length (sent ?s1)) (get_request HYLO_API None)
                = Inl (HTTPError 404 ''HTTP Error 404: Not Found'')"
    by (simp add: nth_answers)
  have code: "http_code (HTTPError 404 ''HTTP Error 404: Not Found'') = Some 404
              \<and> (404::int) \<noteq> 429"
    by simp
  note a = failed_attempt_retried_or_raised
             [where attempt = 0 and rest = "[1, 2]" and ?s0.0 = s_init, OF out0]
  note b = failed_attempt_retried_or_raised
             [where attempt = 1 and rest = "[2]" and max_retries = 3, OF out1,
             THEN conjunct2, THEN conjunct2, rule_format, OF code, THEN conjunct1]
  have "fetch_with_retry ?w HYLO_API None 3 s_init
          = for_attempts ?w (get_request HYLO_API None) 3 [1, 2] ?s1"
    using a [THEN conjunct1] a [THEN conjunct2, THEN conjunct1, rule_format, OF other]
    by (simp add: sleep_def s_init_def del: for_attempts.simps)
  with b have second: "fetch_with_retry ?w HYLO_API None 3 s_init
     = (Inl (HTTPError 404 ''HTTP Error 404: Not Found''),
        \<lparr>sent = [get_request HYLO_API None, get_request HYLO_API None],
         sleeps = [1], draws = 0\<rparr>)"
    by (simp del: for_attempts.simps)
  let ?v = "run_world [Inl (HTTPError 503 ''HTTP Error 503: Service Unavailable'')]"
  have out: "urlopen ?v (length (sent s_init)) (get_request HYLO_API None)
               = Inl (HTTPError 503 ''HTTP Error 503: Service Unavailable'')"
    by (simp add: nth_answers s_init_def)
  have code': "http_code (HTTPError 503 ''HTTP Error 503: Service Unavailable'') = Some 503
               \<and> (503::int) \<noteq> 429"
    by simp
  from failed_attempt_retried_or_raised [OF out, THEN conjunct2, THEN conjunct2, rule_format,
         OF code', THEN conjunct2]
  have third: "fetch_with_retry ?v HYLO_API None 3 s_init
     = (Inl (HTTPError 503 ''HTTP Error 503: Service Unavailable''),
        \<lparr>sent = [get_request HYLO_API None], sleeps = [], draws = 0\<rparr>)"
    by (simp add: s_init_def)
  from first second third show ?thesis by simp
qed

theorem http_error_not_retried_counterexample:
  "fetch_with_retry (run_world [Inl (HTTPError 500 ''HTTP Error 500: Internal Server Error'')])
      HYLO_API None 3 s_init
   = (Inl (HTTPError 500 ''HTTP Error 500: Internal Server Error''),
      \<lparr>sent = [get_request HYLO_API None], sleeps = [], draws = 0\<rparr>)"
  by (simp add: fetch_with_retry_3 attempt_body_def send_def s_init_def nth_answers)

text \<open>
  C7. When the first attempt is answered with HTTP 429 and the second succeeds, the call
  makes exactly two requests and sleeps once in between, for \<open>2 ^ 0\<close> seconds plus the
  value drawn from \<^verbatim>\<open>random.uniform(0, 1)\<close>; with that value in \<open>[0, 1)\<close> the wait is at
  least 1 second (and less than 2).
\<close>

theorem rate_limit_then_success:
  assumes "urlopen w (length (sent s)) (get_request u hdrs) = Inl (HTTPError 429 m)"
      and "urlopen w (Suc (length (sent s))) (get_request u hdrs) = Inr j"
      and "0 \<le> uniform w (draws s)" and "uniform w (draws s) < 1"
  shows "fetch_with_retry w u hdrs 3 s
           = (Inr j, s\<lparr>sent := sent s @ [get_request u hdrs, get_request u hdrs],
                       sleeps := sleeps s @ [2 ^ 0 + uniform w (draws s)],
                       draws := Suc (draws s)\<rparr>)
         \<and> 1 \<le> 2 ^ 0 + uniform w (draws s) \<and> 2 ^ 0 + uniform w (draws s) < (2::real)"
  using assms
  by (simp add: fetch_with_retry_3 attempt_body_def send_def sleep_def random_uniform_def)

theorem rate_limit_then_success_witness:
  "fetch_with_retry
      (run_world [Inl (HTTPError 429 ''HTTP Error 429: Too Many Requests''),
                  Inr (price_doc SOL_MINT 150)])
      JUPITER_PRICE_API None 3 s_init
     = (Inr (price_doc SOL_MINT 150),
        \<lparr>sent = [get_request JUPITER_PRICE_API None, get_request JUPITER_PRICE_API None],
         sleeps = [3 / 2], draws = 1\<rparr>)"
proof -
  let ?w = "run_world [Inl (HTTPError 429 ''HTTP Error 429: Too Many Requests''),
                       Inr (price_doc SOL_MINT 150)]"
  have first: "urlopen ?w (length (sent s_init)) (get_request JUPITER_PRICE_API None)
                 = Inl (HTTPError 429 ''HTTP Error 429: Too Many Requests'')"
    by (simp add: nth_answers s_init_def)
  have second: "urlopen ?w (Suc (length (sent s_init))) (get_request JUPITER_PRICE_API None)
                  = Inr (price_doc SOL_MINT 150)"
    by (simp add: nth_answers s_init_def)
  have jitter: "0 \<le> uniform ?w (draws s_init)" "uniform ?w (draws s_init) < 1"
    by (simp_all add: run_world_def)
  from rate_limit_then_success [OF first second jitter]
  show ?thesis by (simp add: s_init_def run_world_def)
qed

text \<open>
  C10, as amended. With \<open>max_retries\<close> at least 1 (every caller uses the default 3) the call
  sends between 1 and \<open>max_retries\<close> requests and leaves through the last one: its result is
  that attempt's outcome, the decoded document returned or the exception raised. So the
  \<^verbatim>\<open>return None\<close> after the loop is not reached. With \<open>max_retries\<close> 0 or negative the loop
  body never runs: the call sends nothing and returns \<^verbatim>\<open>None\<close>. The returned document of
  an attempt can itself be \<^verbatim>\<open>None\<close>; both are in the counterexample below.
\<close>

theorem fetch_with_retry_leaves_through_attempt:
  "(0 < max_retries \<longrightarrow>
      (\<exists>k<nat max_retries.
           fetch_with_retry w u hdrs max_retries s
             = (urlopen w (length (sent s) + k) (get_request u hdrs),
                snd (fetch_with_retry w u hdrs max_retries s))
         \<and> sent (snd (fetch_with_retry w u hdrs max_retries s))
             = sent s @ replicate (Suc k) (get_request u hdrs)))
   \<and> (max_retries \<le> 0 \<longrightarrow> fetch_with_retry w u hdrs max_retries s = (Inr JNull, s))"
proof (intro conjI impI)
  assume "0 < max_retries"
  then show "\<exists>k<nat max_retries.
           fetch_with_retry w u hdrs max_retries s
             = (urlopen w (length (sent s) + k) (get_request u hdrs),
                snd (fetch_with_retry w u hdrs max_retries s))
         \<and> sent (snd (fetch_with_retry w u hdrs max_retries s))
             = sent s @ replicate (Suc k) (get_request u hdrs)"
    by (rule fetch_with_retry_last_attempt)
next
  assume "max_retries \<le> 0"
  then show "fetch_with_retry w u hdrs max_retries s = (Inr JNull, s)"
    by (simp add: fetch_with_retry_def)
qed

theorem fetch_with_retry_leaves_through_attempt_witness:
  "(\<exists>k<nat 3.
     fetch_with_retry (run_world [timed_out, Inr (price_doc SOL_MINT 150)])
        JUPITER_PRICE_API None 3 s_init
       = (urlopen (run_world [timed_out, Inr (price_doc SOL_MINT 150)]) (0 + k)
            (get_request JUPITER_PRICE_API None),
          snd (fetch_with_retry (run_world [timed_out, Inr (price_doc SOL_MINT 150)])
                 JUPITER_PRICE_API None 3 s_init))
     \<and> sent (snd (fetch_with_retry (run_world [timed_out, Inr (price_doc SOL_MINT 150)])
                     JUPITER_PRICE_API None 3 s_init))
         = [] @ replicate (Suc k) (get_request JUPITER_PRICE_API None))
   \<and> fetch_with_retry (run_world []) HYLO_API None (- 1) s_init = (Inr JNull, s_init)"
proof -
  have pos: "(0::int) < 3" by simp
  have neg: "(- 1::int) \<le> 0" by simp
  have init: "sent s_init = []" by (simp add: s_init_def)
  from fetch_with_retry_leaves_through_attempt [THEN conjunct1, rule_format, OF pos,
         of "run_world [timed_out, Inr (price_doc SOL_MINT 150)]" JUPITER_PRICE_API None s_init]
  have first: "\<exists>k<nat 3.
     fetch_with_retry (run_world [timed_out, Inr (price_doc SOL_MINT 150)])
        JUPITER_PRICE_API None 3 s_init
       = (urlopen (run_world [timed_out, Inr (price_doc SOL_MINT 150)]) (0 + k)
            (get_request JUPITER_PRICE_API None),
          snd (fetch_with_retry (run_world [timed_out, Inr (price_doc SOL_MINT 150)])
                 JUPITER_PRICE_API None 3 s_init))
     \<and> sent (snd (fetch_with_retry (run_world [timed_out, Inr (price_doc SOL_MINT 150)])
                     JUPITER_PRICE_API None 3 s_init))
         = [] @ replicate (Suc k) (get_request JUPITER_PRICE_API None)"
    unfolding init list.size .
  from fetch_with_retry_leaves_through_attempt [THEN conjunct2, rule_format, OF neg]
  have second: "fetch_with_retry (run_world []) HYLO_API None (- 1) s_init = (Inr JNull, s_init)" .
  from first second show ?thesis by (rule conjI)
qed

theorem fetch_with_retry_returns_none_counterexample:
  "fetch_with_retry (run_world []) HYLO_API None 0 s_init = (Inr JNull, s_init)
   \<and> fetch_with_retry (run_world [Inr JNull]) HYLO_API None 3 s_init
       = (Inr JNull, \<lparr>sent = [get_request HYLO_API None], sleeps = [], draws = 0\<rparr>)"
  by (simp add: fetch_with_retry_def attempt_body_def send_def s_init_def nth_answers upt_rec)

section \<open>The handler\<close>

lemma derived_Inr:
  assumes "derived a p q b = Inr (T, TS, EL)"
  shows "\<exists>h x y z. py_num a = Some h \<and> py_num p = Some x \<and> py_num q = Some y \<and>
           py_num b = Some z \<and> z \<noteq> 0 \<and> x * y \<noteq> 0 \<and>
           T = JNum (h + x * y) \<and> TS = JNum ((h + x * y) / z) \<and>
           EL = JNum ((h + x * y) / (x * y))"
  using assms
  by (auto simp: derived_def py_mul_def py_add_def py_truediv_def
           split: sum.splits option.splits if_splits)

lemma do_GET_primary_Inr:
  assumes "do_GET_primary w s = (Inr m, s2)"
  shows "\<exists>hylo_data s1 stats H P Q CR SM B T TS EL.
     fetch_hylo_api w s = (Inr hylo_data, s1) \<and>
     subscript hylo_data ''exchangeStats'' = Inr stats \<and>
     subscript stats ''stablecoinSupply'' = Inr H \<and>
     subscript stats ''levercoinNav'' = Inr P \<and>
     subscript stats ''levercoinSupply'' = Inr Q \<and>
     subscript stats ''collateralRatio'' = Inr CR \<and>
     py_get stats ''stabilityMode'' (JObj []) = Inr SM \<and>
     fetch_sol_price w s1 = (Inr B, s2) \<and>
     derived H P Q B = Inr (T, TS, EL) \<and>
     m = [(''HYusd_supply'', H), (''xSOL_price'', P), (''xSOL_supply'', Q),
          (''CollateralRatio'', CR), (''SOL_price'', B), (''StabilityMode'', SM),
          (''Collateral_TVL'', T), (''Collateral_TVL_SOL'', TS), (''Effective_Leverage'', EL),
          (''xSOL_icon_url'', JNull), (''lastFetched'', JStr (utcnow w @ ''Z'')),
          (''source'', JStr ''hylo-api'')]"
  using assms unfolding do_GET_primary_def
  by (simp split: sum.splits prod.splits)

lemma fallback_Inr:
  assumes "fetch_blockchain_fallback w s = (Inr m, s3)"
  shows "\<exists>x s1 B s2 P T TS EL.
     fetch_token_supply w XSOL_MINT s = (Some x, s1) \<and> x \<noteq> 0 \<and>
     fetch_sol_price w s1 = (Inr B, s2) \<and>
     fetch_xsol_price w s2 = (Inr P, s3) \<and> truthy B \<and> truthy P \<and>
     derived (JNum 18000000) P (JNum x) B = Inr (T, TS, EL) \<and>
     m = [(''HYusd_supply'', JNum 18000000), (''xSOL_price'', P), (''xSOL_supply'', JNum x),
          (''CollateralRatio'', JNull), (''SOL_price'', B), (''StabilityMode'', JObj []),
          (''Collateral_TVL'', T), (''Collateral_TVL_SOL'', TS), (''Effective_Leverage'', EL),
          (''xSOL_icon_url'', JNull), (''lastFetched'', JStr (utcnow w @ ''Z'')),
          (''source'', JStr ''blockchain-fallback''),
          (''note'', JStr ''CollateralRatio unavailable - using blockchain approximation'')]"
  using assms unfolding fetch_blockchain_fallback_def
  by (simp split: sum.splits prod.splits option.splits if_splits)

text \<open>A response with status 200 carries the record of the primary path, or, when that
  raised, the record of the fallback.\<close>

lemma do_GET_200:
  assumes "status (fst (do_GET w s)) = 200"
  shows "\<exists>m s2. do_GET w s = (send_metrics m, s2) \<and>
           (do_GET_primary w s = (Inr m, s2) \<or>
            (\<exists>e s1. do_GET_primary w s = (Inl e, s1) \<and>
                     fetch_blockchain_fallback w s1 = (Inr m, s2)))"
  using assms unfolding do_GET_def
  by (auto simp: send_error_def split: sum.splits prod.splits)

subsection \<open>The requests a function sends\<close>

lemma fetch_with_retry_sent:
  "\<exists>k. sent (snd (fetch_with_retry w u hdrs mr s)) = sent s @ replicate k (get_request u hdrs)"
  using for_attempts_sent [of "[0..<nat mr]" w "get_request u hdrs" mr s]
  unfolding fetch_with_retry_def by blast

lemma fetch_sol_price_state:
  "snd (fetch_sol_price w s)
     = snd (fetch_with_retry w
              (JUPITER_PRICE_API @ ''?ids='' @ SOL_MINT @ ''&vsToken='' @ USDC_MINT) None 3 s)"
  unfolding fetch_sol_price_def by (simp split: sum.splits prod.splits)

lemma fetch_xsol_price_state:
  "snd (fetch_xsol_price w s)
     = snd (fetch_with_retry w
              (JUPITER_PRICE_API @ ''?ids='' @ XSOL_MINT @ ''&vsToken='' @ USDC_MINT) None 3 s)"
  unfolding fetch_xsol_price_def by (simp split: sum.splits prod.splits)

lemma for_endpoints_sent:
  "\<exists>ext. sent (snd (for_endpoints w mint eps s)) = sent s @ ext
         \<and> (\<forall>r\<in>set ext. req_url r \<in> set eps)"
proof (induction eps arbitrary: s)
  case Nil
  show ?case by simp
next
  case (Cons rpc eps)
  let ?s1 = "s\<lparr>sent := sent s @ [rpc_request rpc mint]\<rparr>"
  from Cons.IH [of ?s1] obtain ext where ext:
    "sent (snd (for_endpoints w mint eps ?s1)) = sent ?s1 @ ext"
    "\<forall>r\<in>set ext. req_url r \<in> set eps" by blast
  have url: "req_url (rpc_request rpc mint) = rpc" by (simp add: rpc_request_def)
  have "snd (for_endpoints w mint (rpc # eps) s) = ?s1
        \<or> snd (for_endpoints w mint (rpc # eps) s) = snd (for_endpoints w mint eps ?s1)"
    by (simp add: send_def split: sum.splits prod.splits)
  then show ?case
  proof
    assume "snd (for_endpoints w mint (rpc # eps) s) = ?s1"
    then show ?thesis using url
      by (intro exI [of _ "[rpc_request rpc mint]"]) simp
  next
    assume "snd (for_endpoints w mint (rpc # eps) s) = snd (for_endpoints w mint eps ?s1)"
    then show ?thesis using ext url
      by (intro exI [of _ "rpc_request rpc mint # ext"]) auto
  qed
qed

text \<open>Every request of the fallback goes to an RPC endpoint or to the price API, none to the
  upstream API.\<close>

lemma fallback_sent:
  "\<exists>ext. sent (snd (fetch_blockchain_fallback w s)) = sent s @ ext
         \<and> (\<forall>r\<in>set ext. req_url r \<noteq> HYLO_API)"
proof -
  define s1 where "s1 = snd (fetch_token_supply w XSOL_MINT s)"
  define s2 where "s2 = snd (fetch_sol_price w s1)"
  define s3 where "s3 = snd (fetch_xsol_price w s2)"
  from for_endpoints_sent [of w XSOL_MINT SOLANA_RPC_ENDPOINTS s]
  obtain e1 where e1: "sent s1 = sent s @ e1" "\<forall>r\<in>set e1. req_url r \<in> set SOLANA_RPC_ENDPOINTS"
    unfolding s1_def fetch_token_supply_def by blast
  from fetch_with_retry_sent obtain k2 where e2: "sent s2 = sent s1 @ replicate k2
      (get_request (JUPITER_PRICE_API @ ''?ids='' @ SOL_MINT @ ''&vsToken='' @ USDC_MINT) None)"
    unfolding s2_def fetch_sol_price_state by blast
  from fetch_with_retry_sent obtain k3 where e3: "sent s3 = sent s2 @ replicate k3
      (get_request (JUPITER_PRICE_API @ ''?ids='' @ XSOL_MINT @ ''&vsToken='' @ USDC_MINT) None)"
    unfolding s3_def fetch_xsol_price_state by blast
  have rpc: "\<forall>r\<in>set e1. req_url r \<noteq> HYLO_API"
    using e1(2) by (auto simp: SOLANA_RPC_ENDPOINTS_def HYLO_API_def)
  have p2: "req_url (get_request (JUPITER_PRICE_API @ ''?ids='' @ SOL_MINT @ ''&vsToken='' @ USDC_MINT) None) \<noteq> HYLO_API"
    by (simp add: get_request_def JUPITER_PRICE_API_def HYLO_API_def)
  have p3: "req_url (get_request (JUPITER_PRICE_API @ ''?ids='' @ XSOL_MINT @ ''&vsToken='' @ USDC_MINT) None) \<noteq> HYLO_API"
    by (simp add: get_request_def JUPITER_PRICE_API_def HYLO_API_def)
  have "snd (fetch_blockchain_fallback w s) = s1 \<or> snd (fetch_blockchain_fallback w s) = s2
        \<or> snd (fetch_blockchain_fallback w s) = s3"
    unfolding fetch_blockchain_fallback_def s1_def s2_def s3_def
    by (simp split: sum.splits prod.splits option.splits)
  then consider "snd (fetch_blockchain_fallback w s) = s1"
    | "snd (fetch_blockchain_fallback w s) = s2" | "snd (fetch_blockchain_fallback w s) = s3"
    by blast
  then show ?thesis
  proof cases
    case 1
    then show ?thesis using e1(1) rpc by (intro exI [of _ e1]) simp
  next
    case 2
    then show ?thesis using e1(1) e2 rpc p2
      by (intro exI [of _ "e1 @ replicate k2 _"]) auto
  next
    case 3
    then show ?thesis using e1(1) e2 e3 rpc p2 p3
      by (intro exI [of _ "e1 @ replicate k2 _ @ replicate k3 _"]) auto
  qed
qed

lemma for_endpoints_Some:
  "for_endpoints w mint eps s = (Some x, s1) \<Longrightarrow>
   \<exists>rpc\<in>set eps. \<exists>n data. urlopen w n (rpc_request rpc mint) = Inr data
                              \<and> ui_amount w data = Inr x"
proof (induction eps arbitrary: s)
  case Nil
  then show ?case by simp
next
  case (Cons rpc eps)
  show ?case
  proof (cases "urlopen w (length (sent s)) (rpc_request rpc mint)")
    case (Inl e)
    with Cons.prems
    have "for_endpoints w mint eps (s\<lparr>sent := sent s @ [rpc_request rpc mint]\<rparr>) = (Some x, s1)"
      by (simp add: send_def)
    from Cons.IH [OF this] show ?thesis by auto
  next
    case (Inr data)
    show ?thesis
    proof (cases "ui_amount w data")
      case (Inl e)
      with Cons.prems Inr
      have "for_endpoints w mint eps (s\<lparr>sent := sent s @ [rpc_request rpc mint]\<rparr>) = (Some x, s1)"
        by (simp add: send_def)
      from Cons.IH [OF this] show ?thesis by auto
    next
      case (Inr y)
      with Cons.prems \<open>urlopen w (length (sent s)) (rpc_request rpc mint) = Inr data\<close>
      have "y = x" by (simp add: send_def)
      with Inr \<open>urlopen w (length (sent s)) (rpc_request rpc mint) = Inr data\<close>
      show ?thesis by auto
    qed
  qed
qed

text \<open>When every attempt of a call with \<open>max_retries = 3\<close> raises, the call raises.\<close>

lemma fetch_with_retry_all_raise:
  assumes "\<forall>k<3. \<exists>e. urlopen w (length (sent s) + k) (get_request u hdrs) = Inl e"
  shows "\<exists>e. fst (fetch_with_retry w u hdrs 3 s) = Inl e"
proof -
  have pos: "(0::int) < 3" by simp
  from fetch_with_retry_last_attempt [OF pos, of w u hdrs s]
  obtain k where k: "k < 3"
    "fetch_with_retry w u hdrs 3 s
       = (urlopen w (length (sent s) + k) (get_request u hdrs),
          snd (fetch_with_retry w u hdrs 3 s))"
    by auto
  from k(1) assms obtain e where "urlopen w (length (sent s) + k) (get_request u hdrs) = Inl e"
    by auto
  with k(2) show ?thesis by (metis fst_conv)
qed

lemmas run_defs =
  do_GET_def do_GET_primary_def fetch_hylo_api_def fetch_with_retry_3 attempt_body_def
  send_def sleep_def random_uniform_def nth_answers timed_out_def
  fetch_blockchain_fallback_def fetch_token_supply_def SOLANA_RPC_ENDPOINTS_def
  supply_doc_def hylo_doc_def price_doc_def ui_amount_def fetch_sol_price_def
  fetch_xsol_price_def derived_def py_mul_def py_add_def py_truediv_def

lemma fallback_run_primary:
  "do_GET_primary fallback_run s_init = (Inl (OtherError ''timed out''), s_hylo_down)"
  by (simp add: run_defs fallback_run_def s_init_def s_hylo_down_def hylo_request_def)

lemma fallback_run_fallback:
  "fetch_blockchain_fallback fallback_run s_hylo_down
     = (Inr [(''HYusd_supply'', JNum 18000000), (''xSOL_price'', JNum (3 / 2)),
             (''xSOL_supply'', JNum 1000000), (''CollateralRatio'', JNull),
             (''SOL_price'', JNum 150), (''StabilityMode'', JObj []),
             (''Collateral_TVL'', JNum 19500000), (''Collateral_TVL_SOL'', JNum 130000),
             (''Effective_Leverage'', JNum 13), (''xSOL_icon_url'', JNull),
             (''lastFetched'', JStr ''2024-01-01T00:00:00Z''),
             (''source'', JStr ''blockchain-fallback''),
             (''note'', JStr ''CollateralRatio unavailable - using blockchain approximation'')],
        \<lparr>sent = [hylo_request, hylo_request, hylo_request,
                 rpc_request ''https://api.mainnet-beta.solana.com'' XSOL_MINT,
                 sol_price_request, xsol_price_request],
         sleeps = [1, 1], draws = 0\<rparr>)"
  by (simp add: run_defs fallback_run_def s_hylo_down_def sol_price_request_def
                xsol_price_request_def run_world_def)

lemma primary_run_primary:
  "do_GET_primary primary_run s_init
     = (Inr [(''HYusd_supply'', JNum 18000000), (''xSOL_price'', JNum (3 / 2)),
             (''xSOL_supply'', JNum 1000000), (''CollateralRatio'', JNum (6 / 5)),
             (''SOL_price'', JNum 150), (''StabilityMode'', JObj []),
             (''Collateral_TVL'', JNum 19500000), (''Collateral_TVL_SOL'', JNum 130000),
             (''Effective_Leverage'', JNum 13), (''xSOL_icon_url'', JNull),
             (''lastFetched'', JStr ''2024-01-01T00:00:00Z''),
             (''source'', JStr ''hylo-api'')],
        \<lparr>sent = [hylo_request, sol_price_request], sleeps = [], draws = 0\<rparr>)"
  by (simp add: run_defs primary_run_def s_init_def hylo_request_def sol_price_request_def
                run_world_def)

lemma all_down_primary:
  "do_GET_primary (run_world []) s_init = (Inl (OtherError ''timed out''), s_hylo_down)"
  by (simp add: run_defs s_init_def s_hylo_down_def hylo_request_def)

lemma zero_price_run_primary:
  "do_GET_primary zero_price_run s_init = (Inl (OtherError ''timed out''), s_hylo_down)"
  by (simp add: run_defs zero_price_run_def s_init_def s_hylo_down_def hylo_request_def)

lemma zero_supply_run_primary:
  "do_GET_primary zero_supply_run s_init = (Inl (OtherError ''timed out''), s_hylo_down)"
  by (simp add: run_defs zero_supply_run_def s_init_def s_hylo_down_def hylo_request_def)

section \<open>The claims about the handler\<close>

text \<open>
  C1. When every attempt of the request to the upstream API raises, or any other step of
  the primary path raises (fetch, extraction, price lookup, computation), the primary path
  ends with an exception, and the response of the handler is the one built from
  \<open>fetch_blockchain_fallback\<close>, run in the state the primary path left: a response with
  status 200 then carries a record whose \<open>source\<close> is \<open>blockchain-fallback\<close>, and no request
  sent after the primary path ended goes to the upstream API.
\<close>

theorem primary_failure_falls_back:
  assumes "(\<forall>k<3. \<exists>e. urlopen w (length (sent s) + k)
                          (get_request HYLO_API (Some hylo_headers)) = Inl e)
           \<or> (\<exists>e. fst (do_GET_primary w s) = Inl e)"
  shows "\<exists>e s1. do_GET_primary w s = (Inl e, s1)
           \<and> do_GET w s = (case fetch_blockchain_fallback w s1 of
                              (Inr metrics, s2) \<Rightarrow> (send_metrics metrics, s2)
                            | (Inl e', s2) \<Rightarrow> (send_error w e', s2))
           \<and> (status (fst (do_GET w s)) = 200 \<longrightarrow>
                (\<exists>m. body (fst (do_GET w s)) = JObj m
                      \<and> map_of m ''source'' = Some (JStr ''blockchain-fallback'')))
           \<and> (\<forall>r\<in>set (drop (length (sent s1)) (sent (snd (do_GET w s)))).
                 req_url r \<noteq> HYLO_API)"
proof -
  have "\<exists>e. fst (do_GET_primary w s) = Inl e"
    using assms
  proof
    assume "\<forall>k<3. \<exists>e. urlopen w (length (sent s) + k)
                         (get_request HYLO_API (Some hylo_headers)) = Inl e"
    from fetch_with_retry_all_raise [OF this]
    obtain e where "fst (fetch_hylo_api w s) = Inl e"
      unfolding fetch_hylo_api_def by blast
    then show ?thesis
      unfolding do_GET_primary_def by (cases "fetch_hylo_api w s") auto
  qed
  then obtain e s1 where p: "do_GET_primary w s = (Inl e, s1)"
    by (cases "do_GET_primary w s") auto
  have eq: "do_GET w s = (case fetch_blockchain_fallback w s1 of
                            (Inr metrics, s2) \<Rightarrow> (send_metrics metrics, s2)
                          | (Inl e', s2) \<Rightarrow> (send_error w e', s2))"
    by (simp add: do_GET_def p)
  have st: "snd (do_GET w s) = snd (fetch_blockchain_fallback w s1)"
    unfolding eq by (simp split: sum.splits prod.splits)
  from fallback_sent [of w s1] obtain ext where
    "sent (snd (fetch_blockchain_fallback w s1)) = sent s1 @ ext"
    "\<forall>r\<in>set ext. req_url r \<noteq> HYLO_API" by blast
  then have trace: "\<forall>r\<in>set (drop (length (sent s1)) (sent (snd (do_GET w s)))).
                      req_url r \<noteq> HYLO_API"
    unfolding st by simp
  have src: "status (fst (do_GET w s)) = 200 \<longrightarrow>
               (\<exists>m. body (fst (do_GET w s)) = JObj m
                     \<and> map_of m ''source'' = Some (JStr ''blockchain-fallback''))"
  proof (cases "fetch_blockchain_fallback w s1")
    case (Pair r s2)
    show ?thesis
    proof (cases r)
      case (Inl e')
      with Pair show ?thesis unfolding eq by (simp add: send_error_def)
    next
      case (Inr m)
      from fallback_Inr [OF Pair [unfolded Inr]]
      have "map_of m ''source'' = Some (JStr ''blockchain-fallback'')" by auto
      with Pair Inr show ?thesis unfolding eq by (simp add: send_metrics_def)
    qed
  qed
  from p eq src trace show ?thesis by blast
qed

theorem primary_failure_falls_back_witness:
  "urlopen fallback_run 0 hylo_request = Inl (OtherError ''timed out'')
   \<and> urlopen fallback_run 1 hylo_request = Inl (OtherError ''timed out'')
   \<and> urlopen fallback_run 2 hylo_request = Inl (OtherError ''timed out'')
   \<and> do_GET_primary fallback_run s_init = (Inl (OtherError ''timed out''), s_hylo_down)
   \<and> status (fst (do_GET fallback_run s_init)) = 200
   \<and> (\<exists>m. body (fst (do_GET fallback_run s_init)) = JObj m
           \<and> map_of m ''source'' = Some (JStr ''blockchain-fallback''))
   \<and> HYLO_API \<notin> req_url ` set (drop (length (sent s_hylo_down))
                                      (sent (snd (do_GET fallback_run s_init))))"
proof -
  have each: "urlopen fallback_run 0 hylo_request = Inl (OtherError ''timed out'')"
    "urlopen fallback_run 1 hylo_request = Inl (OtherError ''timed out'')"
    "urlopen fallback_run 2 hylo_request = Inl (OtherError ''timed out'')"
    by (simp_all add: fallback_run_def nth_answers timed_out_def)
  have down: "\<forall>k<3. \<exists>e. urlopen fallback_run (length (sent s_init) + k)
                           (get_request HYLO_API (Some hylo_headers)) = Inl e"
    by (simp add: fallback_run_def nth_answers timed_out_def s_init_def nth_Cons')
  from primary_failure_falls_back [OF disjI1 [OF down]]
  obtain e s1 where f: "do_GET_primary fallback_run s_init = (Inl e, s1)"
    "do_GET fallback_run s_init = (case fetch_blockchain_fallback fallback_run s1 of
                              (Inr metrics, s2) \<Rightarrow> (send_metrics metrics, s2)
                            | (Inl e', s2) \<Rightarrow> (send_error fallback_run e', s2))"
    "status (fst (do_GET fallback_run s_init)) = 200 \<longrightarrow>
                (\<exists>m. body (fst (do_GET fallback_run s_init)) = JObj m
                      \<and> map_of m ''source'' = Some (JStr ''blockchain-fallback''))"
    "\<forall>r\<in>set (drop (length (sent s1)) (sent (snd (do_GET fallback_run s_init)))).
                 req_url r \<noteq> HYLO_API"
    by blast
  from f(1) have s1: "s1 = s_hylo_down" and e: "e = OtherError ''timed out''"
    by (simp_all add: fallback_run_primary)
  have ok: "status (fst (do_GET fallback_run s_init)) = 200"
    unfolding f(2) s1 by (simp add: fallback_run_fallback send_metrics_def)
  from f(4) have trace: "HYLO_API \<notin> req_url ` set (drop (length (sent s_hylo_down))
                                      (sent (snd (do_GET fallback_run s_init))))"
    unfolding s1 by auto
  from each f(1) f(3) ok trace show ?thesis unfolding s1 e by blast
qed

text \<open>
  C2. Once the fallback has begun: when no RPC endpoint gave a supply, or a price lookup
  returned a falsy value, \<open>fetch_blockchain_fallback\<close> raises and the handler answers with
  status 500 and a body of exactly three fields: \<open>error\<close> with the text of that exception,
  and the fixed \<open>message\<close> and \<open>suggestion\<close>. The exception is the one of line 100 when
  the supply is missing, and the one of line 107 when both price lookups returned.
\<close>

theorem fallback_failure_is_500:
  assumes "do_GET_primary w s = (Inl e0, s1)"
      and "fetch_token_supply w XSOL_MINT s1 = (supply, s2)"
      and "supply = None
           \<or> (\<exists>p s3. fetch_sol_price w s2 = (Inr p, s3) \<and> \<not> truthy p)
           \<or> (\<exists>p s3 p' s4. fetch_sol_price w s2 = (Inr p, s3)
                  \<and> fetch_xsol_price w s3 = (Inr p', s4) \<and> \<not> truthy p')"
  shows "\<exists>e. fst (fetch_blockchain_fallback w s1) = Inl e
           \<and> fst (do_GET w s) =
               \<lparr>status = 500,
                resp_headers = [(''Content-type'', ''application/json''),
                                (''Access-Control-Allow-Origin'', ''*'')],
                body = JObj [(''error'', JStr (str_exn w e)),
                             (''message'', JStr ''Failed to fetch xSOL metrics''),
                             (''suggestion'', JStr ''Try again later or use cached Gist data'')]\<rparr>
           \<and> (supply = None \<longrightarrow>
                 str_exn w e = ''Failed to fetch xSOL supply from blockchain'')
           \<and> (\<forall>x p s3 p' s4. supply = Some x \<and> x \<noteq> 0 \<and> fetch_sol_price w s2 = (Inr p, s3)
                  \<and> fetch_xsol_price w s3 = (Inr p', s4)
                \<longrightarrow> str_exn w e = ''Failed to fetch prices from Jupiter'')"
proof -
  have raises: "\<exists>e. fst (fetch_blockchain_fallback w s1) = Inl e"
    using assms(2,3) unfolding fetch_blockchain_fallback_def
    by (auto split: option.splits sum.splits prod.splits)
  then obtain e where e: "fst (fetch_blockchain_fallback w s1) = Inl e" by blast
  have resp: "fst (do_GET w s) = send_error w e"
    using e assms(1) unfolding do_GET_def
    by (cases "fetch_blockchain_fallback w s1") (simp split: sum.splits)
  have m1: "supply = None \<longrightarrow> str_exn w e = ''Failed to fetch xSOL supply from blockchain''"
    using e assms(2) unfolding fetch_blockchain_fallback_def by auto
  have m2: "\<forall>x p s3 p' s4. supply = Some x \<and> x \<noteq> 0 \<and> fetch_sol_price w s2 = (Inr p, s3)
                  \<and> fetch_xsol_price w s3 = (Inr p', s4)
                \<longrightarrow> str_exn w e = ''Failed to fetch prices from Jupiter''"
    using e assms(2,3) unfolding fetch_blockchain_fallback_def by auto
  from e resp m1 m2 show ?thesis unfolding send_error_def by blast
qed

lemma all_down_supply:
  "fetch_token_supply (run_world []) XSOL_MINT s_hylo_down
     = (None, s_hylo_down\<lparr>sent := sent s_hylo_down
                 @ [rpc_request ''https://api.mainnet-beta.solana.com'' XSOL_MINT,
                    rpc_request ''https://rpc.ankr.com/solana'' XSOL_MINT]\<rparr>)"
  by (simp add: run_defs s_hylo_down_def)

lemma zero_price_run_supply:
  "fetch_token_supply zero_price_run XSOL_MINT s_hylo_down
     = (Some 1000000, s_hylo_down\<lparr>sent := sent s_hylo_down
                 @ [rpc_request ''https://api.mainnet-beta.solana.com'' XSOL_MINT]\<rparr>)"
  by (simp add: run_defs zero_price_run_def s_hylo_down_def)

lemma zero_price_run_sol:
  "fetch_sol_price zero_price_run
      (s_hylo_down\<lparr>sent := sent s_hylo_down
                 @ [rpc_request ''https://api.mainnet-beta.solana.com'' XSOL_MINT]\<rparr>)
     = (Inr (JNum 0), s_hylo_down\<lparr>sent := sent s_hylo_down
                 @ [rpc_request ''https://api.mainnet-beta.solana.com'' XSOL_MINT,
                    sol_price_request]\<rparr>)"
  by (simp add: run_defs zero_price_run_def s_hylo_down_def sol_price_request_def)

lemma zero_price_run_xsol:
  "fetch_xsol_price zero_price_run
      (s_hylo_down\<lparr>sent := sent s_hylo_down
                 @ [rpc_request ''https://api.mainnet-beta.solana.com'' XSOL_MINT,
                    sol_price_request]\<rparr>)
     = (Inr (JNum (3 / 2)), s_hylo_down\<lparr>sent := sent s_hylo_down
                 @ [rpc_request ''https://api.mainnet-beta.solana.com'' XSOL_MINT,
                    sol_price_request, xsol_price_request]\<rparr>)"
  by (simp add: run_defs zero_price_run_def s_hylo_down_def xsol_price_request_def)

theorem fallback_failure_is_500_witness:
  "do_GET_primary (run_world []) s_init = (Inl (OtherError ''timed out''), s_hylo_down)
   \<and> fst (fetch_token_supply (run_world []) XSOL_MINT s_hylo_down) = None
   \<and> fst (do_GET (run_world []) s_init) =
       \<lparr>status = 500,
        resp_headers = [(''Content-type'', ''application/json''),
                        (''Access-Control-Allow-Origin'', ''*'')],
        body = JObj [(''error'', JStr ''Failed to fetch xSOL supply from blockchain''),
                     (''message'', JStr ''Failed to fetch xSOL metrics''),
                     (''suggestion'', JStr ''Try again later or use cached Gist data'')]\<rparr>
   \<and> do_GET_primary zero_price_run s_init = (Inl (OtherError ''timed out''), s_hylo_down)
   \<and> fst (fetch_token_supply zero_price_run XSOL_MINT s_hylo_down) = Some 1000000
   \<and> fst (do_GET zero_price_run s_init) =
       \<lparr>status = 500,
        resp_headers = [(''Content-type'', ''application/json''),
                        (''Access-Control-Allow-Origin'', ''*'')],
        body = JObj [(''error'', JStr ''Failed to fetch prices from Jupiter''),
                     (''message'', JStr ''Failed to fetch xSOL metrics''),
                     (''suggestion'', JStr ''Try again later or use cached Gist data'')]\<rparr>"
proof -
  have none: "None = None
           \<or> (\<exists>p s3. fetch_sol_price (run_world []) s2 = (Inr p, s3) \<and> \<not> truthy p)
           \<or> (\<exists>p s3 p' s4. fetch_sol_price (run_world []) s2 = (Inr p, s3)
                  \<and> fetch_xsol_price (run_world []) s3 = (Inr p', s4) \<and> \<not> truthy p')"
    for s2 :: state
    by simp
  from fallback_failure_is_500 [OF all_down_primary all_down_supply none]
  have first: "fst (do_GET (run_world []) s_init) =
       \<lparr>status = 500,
        resp_headers = [(''Content-type'', ''application/json''),
                        (''Access-Control-Allow-Origin'', ''*'')],
        body = JObj [(''error'', JStr ''Failed to fetch xSOL supply from blockchain''),
                     (''message'', JStr ''Failed to fetch xSOL metrics''),
                     (''suggestion'', JStr ''Try again later or use cached Gist data'')]\<rparr>"
    by auto
  have zero: "Some 1000000 = None
           \<or> (\<exists>p s3. fetch_sol_price zero_price_run
                   (s_hylo_down\<lparr>sent := sent s_hylo_down
                      @ [rpc_request ''https://api.mainnet-beta.solana.com'' XSOL_MINT]\<rparr>)
                   = (Inr p, s3) \<and> \<not> truthy p)
           \<or> (\<exists>p s3 p' s4. fetch_sol_price zero_price_run
                   (s_hylo_down\<lparr>sent := sent s_hylo_down
                      @ [rpc_request ''https://api.mainnet-beta.solana.com'' XSOL_MINT]\<rparr>)
                   = (Inr p, s3)
                  \<and> fetch_xsol_price zero_price_run s3 = (Inr p', s4) \<and> \<not> truthy p')"
    by (simp add: zero_price_run_sol)
  from fallback_failure_is_500 [OF zero_price_run_primary zero_price_run_supply zero]
  obtain e where e:
    "fst (do_GET zero_price_run s_init) =
       \<lparr>status = 500,
        resp_headers = [(''Content-type'', ''application/json''),
                        (''Access-Control-Allow-Origin'', ''*'')],
        body = JObj [(''error'', JStr (str_exn zero_price_run e)),
                     (''message'', JStr ''Failed to fetch xSOL metrics''),
                     (''suggestion'', JStr ''Try again later or use cached Gist data'')]\<rparr>"
    "\<forall>x p s3 p' s4. Some (1000000::real) = Some x \<and> x \<noteq> 0
        \<and> fetch_sol_price zero_price_run
              (s_hylo_down\<lparr>sent := sent s_hylo_down
                 @ [rpc_request ''https://api.mainnet-beta.solana.com'' XSOL_MINT]\<rparr>)
            = (Inr p, s3)
        \<and> fetch_xsol_price zero_price_run s3 = (Inr p', s4)
      \<longrightarrow> str_exn zero_price_run e = ''Failed to fetch prices from Jupiter''"
    by blast
  from e(2) have "str_exn zero_price_run e = ''Failed to fetch prices from Jupiter''"
    by (simp add: zero_price_run_sol zero_price_run_xsol)
  with e(1) have second: "fst (do_GET zero_price_run s_init) =
       \<lparr>status = 500,
        resp_headers = [(''Content-type'', ''application/json''),
                        (''Access-Control-Allow-Origin'', ''*'')],
        body = JObj [(''error'', JStr ''Failed to fetch prices from Jupiter''),
                     (''message'', JStr ''Failed to fetch xSOL metrics''),
                     (''suggestion'', JStr ''Try again later or use cached Gist data'')]\<rparr>"
    by simp
  from first second show ?thesis
    by (simp add: all_down_primary all_down_supply zero_price_run_primary zero_price_run_supply)
qed

text \<open>
  C9. When an RPC endpoint answers with a ui-amount of exactly 0, \<open>fetch_token_supply\<close>
  returns \<open>0.0\<close>, which \<^verbatim>\<open>not xSOL_supply\<close> treats like \<^verbatim>\<open>None\<close>: the fallback raises the exception
  of line 100 before any price lookup and the handler answers with status 500, although an
  endpoint did return a number.
\<close>

theorem zero_supply_is_failure:
  assumes "do_GET_primary w s = (Inl e0, s1)"
      and "fetch_token_supply w XSOL_MINT s1 = (Some 0, s2)"
  shows "fetch_blockchain_fallback w s1
           = (Inl (Exception ''Failed to fetch xSOL supply from blockchain''), s2)
         \<and> do_GET w s
             = (send_error w (Exception ''Failed to fetch xSOL supply from blockchain''), s2)
         \<and> status (fst (do_GET w s)) = 500
         \<and> (\<exists>rpc\<in>set SOLANA_RPC_ENDPOINTS. \<exists>n data.
               urlopen w n (rpc_request rpc XSOL_MINT) = Inr data \<and> ui_amount w data = Inr 0)"
proof -
  have fb: "fetch_blockchain_fallback w s1
              = (Inl (Exception ''Failed to fetch xSOL supply from blockchain''), s2)"
    using assms(2) by (simp add: fetch_blockchain_fallback_def)
  have resp: "do_GET w s
                = (send_error w (Exception ''Failed to fetch xSOL supply from blockchain''), s2)"
    using assms(1) fb by (simp add: do_GET_def)
  have st: "status (fst (do_GET w s)) = 500"
    unfolding resp by (simp add: send_error_def)
  from for_endpoints_Some [OF assms(2) [unfolded fetch_token_supply_def]]
  have "\<exists>rpc\<in>set SOLANA_RPC_ENDPOINTS. \<exists>n data.
          urlopen w n (rpc_request rpc XSOL_MINT) = Inr data \<and> ui_amount w data = Inr 0" .
  with fb resp st show ?thesis by blast
qed

lemma zero_supply_run_supply:
  "fetch_token_supply zero_supply_run XSOL_MINT s_hylo_down
     = (Some 0, s_hylo_down\<lparr>sent := sent s_hylo_down
                 @ [rpc_request ''https://api.mainnet-beta.solana.com'' XSOL_MINT]\<rparr>)"
  by (simp add: run_defs zero_supply_run_def s_hylo_down_def)

theorem zero_supply_is_failure_witness:
  "do_GET_primary zero_supply_run s_init = (Inl (OtherError ''timed out''), s_hylo_down)
   \<and> fst (fetch_token_supply zero_supply_run XSOL_MINT s_hylo_down) = Some 0
   \<and> fst (fetch_blockchain_fallback zero_supply_run s_hylo_down)
       = Inl (Exception ''Failed to fetch xSOL supply from blockchain'')
   \<and> fst (do_GET zero_supply_run s_init)
       = send_error zero_supply_run (Exception ''Failed to fetch xSOL supply from blockchain'')
   \<and> status (fst (do_GET zero_supply_run s_init)) = 500"
  using zero_supply_is_failure [OF zero_supply_run_primary zero_supply_run_supply]
  by (simp add: zero_supply_run_primary zero_supply_run_supply send_error_def)

lemma primary_run_do_GET:
  "fst (do_GET primary_run s_init)
     = send_metrics
         [(''HYusd_supply'', JNum 18000000), (''xSOL_price'', JNum (3 / 2)),
          (''xSOL_supply'', JNum 1000000), (''CollateralRatio'', JNum (6 / 5)),
          (''SOL_price'', JNum 150), (''StabilityMode'', JObj []),
          (''Collateral_TVL'', JNum 19500000), (''Collateral_TVL_SOL'', JNum 130000),
          (''Effective_Leverage'', JNum 13), (''xSOL_icon_url'', JNull),
          (''lastFetched'', JStr ''2024-01-01T00:00:00Z''),
          (''source'', JStr ''hylo-api'')]"
  by (simp add: do_GET_def primary_run_primary)

lemma fallback_run_do_GET:
  "fst (do_GET fallback_run s_init)
     = send_metrics
         [(''HYusd_supply'', JNum 18000000), (''xSOL_price'', JNum (3 / 2)),
          (''xSOL_supply'', JNum 1000000), (''CollateralRatio'', JNull),
          (''SOL_price'', JNum 150), (''StabilityMode'', JObj []),
          (''Collateral_TVL'', JNum 19500000), (''Collateral_TVL_SOL'', JNum 130000),
          (''Effective_Leverage'', JNum 13), (''xSOL_icon_url'', JNull),
          (''lastFetched'', JStr ''2024-01-01T00:00:00Z''),
          (''source'', JStr ''blockchain-fallback''),
          (''note'', JStr ''CollateralRatio unavailable - using blockchain approximation'')]"
  by (simp add: do_GET_def fallback_run_primary fallback_run_fallback)

text \<open>The fields of a record of either path, in terms of the numbers it was computed from.\<close>

lemma record_figures:
  assumes "do_GET_primary w s = (Inr m, s2)
           \<or> fetch_blockchain_fallback w s = (Inr m, s2)"
  shows "\<exists>h p q b. num_field m ''HYusd_supply'' = Some h
           \<and> num_field m ''xSOL_price'' = Some p
           \<and> num_field m ''xSOL_supply'' = Some q
           \<and> num_field m ''SOL_price'' = Some b
           \<and> b \<noteq> 0 \<and> p * q \<noteq> 0
           \<and> map_of m ''Collateral_TVL'' = Some (JNum (h + p * q))
           \<and> map_of m ''Collateral_TVL_SOL'' = Some (JNum ((h + p * q) / b))
           \<and> map_of m ''Effective_Leverage'' = Some (JNum ((h + p * q) / (p * q)))"
  using assms
proof
  assume "do_GET_primary w s = (Inr m, s2)"
  from do_GET_primary_Inr [OF this] obtain H P Q CR B SM T TS EL where
    d: "derived H P Q B = Inr (T, TS, EL)" and
    m: "m = [(''HYusd_supply'', H), (''xSOL_price'', P), (''xSOL_supply'', Q),
          (''CollateralRatio'', CR), (''SOL_price'', B), (''StabilityMode'', SM),
          (''Collateral_TVL'', T), (''Collateral_TVL_SOL'', TS), (''Effective_Leverage'', EL),
          (''xSOL_icon_url'', JNull), (''lastFetched'', JStr (utcnow w @ ''Z'')),
          (''source'', JStr ''hylo-api'')]"
    by blast
  from derived_Inr [OF d] show ?thesis unfolding m num_field_def by auto
next
  assume "fetch_blockchain_fallback w s = (Inr m, s2)"
  from fallback_Inr [OF this] obtain x B P T TS EL where
    d: "derived (JNum 18000000) P (JNum x) B = Inr (T, TS, EL)" and
    m: "m = [(''HYusd_supply'', JNum 18000000), (''xSOL_price'', P), (''xSOL_supply'', JNum x),
          (''CollateralRatio'', JNull), (''SOL_price'', B), (''StabilityMode'', JObj []),
          (''Collateral_TVL'', T), (''Collateral_TVL_SOL'', TS), (''Effective_Leverage'', EL),
          (''xSOL_icon_url'', JNull), (''lastFetched'', JStr (utcnow w @ ''Z'')),
          (''source'', JStr ''blockchain-fallback''),
          (''note'', JStr ''CollateralRatio unavailable - using blockchain approximation'')]"
    by blast
  from derived_Inr [OF d] show ?thesis unfolding m num_field_def by auto
qed

text \<open>
  C4. In every response with status 200, from the primary path or from the fallback, the
  record's \<open>Collateral_TVL\<close> is \<open>HYusd_supply + xSOL_price * xSOL_supply\<close> of the same
  record; in a record of the fallback \<open>HYusd_supply\<close> is the constant 18000000.
\<close>

theorem collateral_tvl_formula:
  assumes "status (fst (do_GET w s)) = 200"
  shows "\<exists>m h p q. body (fst (do_GET w s)) = JObj m
           \<and> num_field m ''HYusd_supply'' = Some h
           \<and> num_field m ''xSOL_price'' = Some p
           \<and> num_field m ''xSOL_supply'' = Some q
           \<and> map_of m ''Collateral_TVL'' = Some (JNum (h + p * q))
           \<and> (map_of m ''source'' = Some (JStr ''blockchain-fallback'') \<longrightarrow> h = 18000000)"
proof -
  from do_GET_200 [OF assms] obtain m s2 where
    r: "do_GET w s = (send_metrics m, s2)" and
    c: "do_GET_primary w s = (Inr m, s2)
        \<or> (\<exists>e s1. do_GET_primary w s = (Inl e, s1)
                   \<and> fetch_blockchain_fallback w s1 = (Inr m, s2))"
    by blast
  have b: "body (fst (do_GET w s)) = JObj m" by (simp add: r send_metrics_def)
  from c show ?thesis
  proof
    assume p: "do_GET_primary w s = (Inr m, s2)"
    from do_GET_primary_Inr [OF p]
    have src: "map_of m ''source'' = Some (JStr ''hylo-api'')" by auto
    from record_figures [OF disjI1 [OF p]] b src show ?thesis by auto
  next
    assume "\<exists>e s1. do_GET_primary w s = (Inl e, s1)
                   \<and> fetch_blockchain_fallback w s1 = (Inr m, s2)"
    then obtain s1 where f: "fetch_blockchain_fallback w s1 = (Inr m, s2)" by blast
    from fallback_Inr [OF f]
    have h: "num_field m ''HYusd_supply'' = Some 18000000" by (auto simp: num_field_def)
    from record_figures [OF disjI2 [OF f]] b h show ?thesis by auto
  qed
qed

theorem collateral_tvl_formula_witness:
  "status (fst (do_GET primary_run s_init)) = 200
   \<and> (\<exists>m. body (fst (do_GET primary_run s_init)) = JObj m
           \<and> num_field m ''HYusd_supply'' = Some 18000000
           \<and> num_field m ''xSOL_price'' = Some (3 / 2)
           \<and> num_field m ''xSOL_supply'' = Some 1000000
           \<and> map_of m ''Collateral_TVL'' = Some (JNum 19500000))"
proof -
  have ok: "status (fst (do_GET primary_run s_init)) = 200"
    by (simp add: primary_run_do_GET send_metrics_def)
  from collateral_tvl_formula [OF ok] obtain m h p q where
    "body (fst (do_GET primary_run s_init)) = JObj m"
    "num_field m ''HYusd_supply'' = Some h" "num_field m ''xSOL_price'' = Some p"
    "num_field m ''xSOL_supply'' = Some q"
    "map_of m ''Collateral_TVL'' = Some (JNum (h + p * q))"
    by blast
  then show ?thesis using ok
    by (auto simp: primary_run_do_GET send_metrics_def num_field_def)
qed

text \<open>
  C5. In every response with status 200, from either path, \<open>Effective_Leverage\<close> is
  \<open>Collateral_TVL / (xSOL_price * xSOL_supply)\<close> and \<open>Collateral_TVL_SOL\<close> is
  \<open>Collateral_TVL / SOL_price\<close>, both divisors being different from 0.
\<close>

theorem leverage_and_tvl_base_formula:
  assumes "status (fst (do_GET w s)) = 200"
  shows "\<exists>m t p q b. body (fst (do_GET w s)) = JObj m
           \<and> map_of m ''Collateral_TVL'' = Some (JNum t)
           \<and> num_field m ''xSOL_price'' = Some p
           \<and> num_field m ''xSOL_supply'' = Some q
           \<and> num_field m ''SOL_price'' = Some b
           \<and> p * q \<noteq> 0 \<and> b \<noteq> 0
           \<and> map_of m ''Effective_Leverage'' = Some (JNum (t / (p * q)))
           \<and> map_of m ''Collateral_TVL_SOL'' = Some (JNum (t / b))"
proof -
  from do_GET_200 [OF assms] obtain m s2 where
    r: "do_GET w s = (send_metrics m, s2)" and
    c: "do_GET_primary w s = (Inr m, s2)
        \<or> (\<exists>e s1. do_GET_primary w s = (Inl e, s1)
                   \<and> fetch_blockchain_fallback w s1 = (Inr m, s2))"
    by blast
  have b: "body (fst (do_GET w s)) = JObj m" by (simp add: r send_metrics_def)
  from c obtain s0 where "do_GET_primary w s0 = (Inr m, s2)
           \<or> fetch_blockchain_fallback w s0 = (Inr m, s2)"
    by blast
  from record_figures [OF this] b show ?thesis by blast
qed

theorem leverage_and_tvl_base_formula_witness:
  "status (fst (do_GET fallback_run s_init)) = 200
   \<and> (\<exists>m. body (fst (do_GET fallback_run s_init)) = JObj m
           \<and> map_of m ''Collateral_TVL'' = Some (JNum 19500000)
           \<and> num_field m ''xSOL_price'' = Some (3 / 2)
           \<and> num_field m ''xSOL_supply'' = Some 1000000
           \<and> num_field m ''SOL_price'' = Some 150
           \<and> map_of m ''Effective_Leverage'' = Some (JNum 13)
           \<and> map_of m ''Collateral_TVL_SOL'' = Some (JNum 130000))"
proof -
  have ok: "status (fst (do_GET fallback_run s_init)) = 200"
    by (simp add: fallback_run_do_GET send_metrics_def)
  from leverage_and_tvl_base_formula [OF ok] obtain m t p q b where
    "body (fst (do_GET fallback_run s_init)) = JObj m"
    "map_of m ''Collateral_TVL'' = Some (JNum t)"
    "num_field m ''xSOL_price'' = Some p" "num_field m ''xSOL_supply'' = Some q"
    "num_field m ''SOL_price'' = Some b"
    "map_of m ''Effective_Leverage'' = Some (JNum (t / (p * q)))"
    "map_of m ''Collateral_TVL_SOL'' = Some (JNum (t / b))"
    by blast
  then show ?thesis using ok
    by (auto simp: fallback_run_do_GET send_metrics_def num_field_def)
qed

text \<open>
  C6, as amended. When the primary path succeeds, the record has the key
  \<open>CollateralRatio\<close> with exactly the value the upstream document has under
  \<open>exchangeStats.collateralRatio\<close> (so it is not null when the upstream value is not), it
  has no key \<open>note\<close>, and it is the body of the response. When the primary path raises and
  the fallback succeeds, \<open>CollateralRatio\<close> is null and \<open>note\<close> holds the text of line 131.
  The upstream value is not checked, so an upstream null is passed on; that is the
  counterexample below.
\<close>

theorem collateral_ratio_and_note:
  "(do_GET_primary w s = (Inr m, s2) \<longrightarrow>
      (\<exists>hylo_data s1 stats ratio.
          fetch_hylo_api w s = (Inr hylo_data, s1)
          \<and> subscript hylo_data ''exchangeStats'' = Inr stats
          \<and> subscript stats ''collateralRatio'' = Inr ratio
          \<and> map_of m ''CollateralRatio'' = Some ratio)
      \<and> map_of m ''note'' = None
      \<and> do_GET w s = (send_metrics m, s2))
   \<and> (do_GET_primary w s = (Inl e, s1') \<and> fetch_blockchain_fallback w s1' = (Inr m', s2') \<longrightarrow>
      map_of m' ''CollateralRatio'' = Some JNull
      \<and> map_of m' ''note''
            = Some (JStr ''CollateralRatio unavailable - using blockchain approximation'')
      \<and> do_GET w s = (send_metrics m', s2'))"
proof (intro conjI impI)
  assume p: "do_GET_primary w s = (Inr m, s2)"
  from do_GET_primary_Inr [OF p] obtain hylo_data s1 stats H P Q CR SM B T TS EL where
    f: "fetch_hylo_api w s = (Inr hylo_data, s1)"
       "subscript hylo_data ''exchangeStats'' = Inr stats"
       "subscript stats ''collateralRatio'' = Inr CR" and
    m: "m = [(''HYusd_supply'', H), (''xSOL_price'', P), (''xSOL_supply'', Q),
          (''CollateralRatio'', CR), (''SOL_price'', B), (''StabilityMode'', SM),
          (''Collateral_TVL'', T), (''Collateral_TVL_SOL'', TS), (''Effective_Leverage'', EL),
          (''xSOL_icon_url'', JNull), (''lastFetched'', JStr (utcnow w @ ''Z'')),
          (''source'', JStr ''hylo-api'')]"
    by blast
  have "map_of m ''CollateralRatio'' = Some CR" unfolding m by simp
  with f show "\<exists>hylo_data s1 stats ratio.
          fetch_hylo_api w s = (Inr hylo_data, s1)
          \<and> subscript hylo_data ''exchangeStats'' = Inr stats
          \<and> subscript stats ''collateralRatio'' = Inr ratio
          \<and> map_of m ''CollateralRatio'' = Some ratio"
    by blast
  show "map_of m ''note'' = None" unfolding m by simp
  show "do_GET w s = (send_metrics m, s2)" by (simp add: do_GET_def p)
next
  assume a: "do_GET_primary w s = (Inl e, s1') \<and> fetch_blockchain_fallback w s1' = (Inr m', s2')"
  from fallback_Inr [OF conjunct2 [OF a]] obtain x B P T TS EL where
    m: "m' = [(''HYusd_supply'', JNum 18000000), (''xSOL_price'', P), (''xSOL_supply'', JNum x),
          (''CollateralRatio'', JNull), (''SOL_price'', B), (''StabilityMode'', JObj []),
          (''Collateral_TVL'', T), (''Collateral_TVL_SOL'', TS), (''Effective_Leverage'', EL),
          (''xSOL_icon_url'', JNull), (''lastFetched'', JStr (utcnow w @ ''Z'')),
          (''source'', JStr ''blockchain-fallback''),
          (''note'', JStr ''CollateralRatio unavailable - using blockchain approximation'')]"
    by blast
  show "map_of m' ''CollateralRatio'' = Some JNull" unfolding m by simp
  show "map_of m' ''note''
          = Some (JStr ''CollateralRatio unavailable - using blockchain approximation'')"
    unfolding m by simp
  show "do_GET w s = (send_metrics m', s2')" using a by (simp add: do_GET_def)
qed

theorem collateral_ratio_and_note_witness:
  "(\<exists>m s2. do_GET_primary primary_run s_init = (Inr m, s2)
       \<and> map_of m ''CollateralRatio'' = Some (JNum (6 / 5))
       \<and> map_of m ''note'' = None
       \<and> do_GET primary_run s_init = (send_metrics m, s2))
   \<and> (\<exists>m' s2'. do_GET_primary fallback_run s_init = (Inl (OtherError ''timed out''), s_hylo_down)
       \<and> fetch_blockchain_fallback fallback_run s_hylo_down = (Inr m', s2')
       \<and> map_of m' ''CollateralRatio'' = Some JNull
       \<and> map_of m' ''note''
            = Some (JStr ''CollateralRatio unavailable - using blockchain approximation'')
       \<and> do_GET fallback_run s_init = (send_metrics m', s2'))"
proof -
  note a = collateral_ratio_and_note [THEN conjunct1, rule_format, OF primary_run_primary]
  note b = collateral_ratio_and_note [THEN conjunct2, rule_format,
             OF conjI [OF fallback_run_primary fallback_run_fallback]]
  have "map_of [(''HYusd_supply'', JNum 18000000), (''xSOL_price'', JNum (3 / 2)),
             (''xSOL_supply'', JNum 1000000), (''CollateralRatio'', JNum (6 / 5)),
             (''SOL_price'', JNum 150), (''StabilityMode'', JObj []),
             (''Collateral_TVL'', JNum 19500000), (''Collateral_TVL_SOL'', JNum 130000),
             (''Effective_Leverage'', JNum 13), (''xSOL_icon_url'', JNull),
             (''lastFetched'', JStr ''2024-01-01T00:00:00Z''),
             (''source'', JStr ''hylo-api'')] ''CollateralRatio'' = Some (JNum (6 / 5))"
    by simp
  with a primary_run_primary have first:
    "\<exists>m s2. do_GET_primary primary_run s_init = (Inr m, s2)
       \<and> map_of m ''CollateralRatio'' = Some (JNum (6 / 5))
       \<and> map_of m ''note'' = None
       \<and> do_GET primary_run s_init = (send_metrics m, s2)"
    by blast
  from b fallback_run_primary fallback_run_fallback have second:
    "\<exists>m' s2'. do_GET_primary fallback_run s_init = (Inl (OtherError ''timed out''), s_hylo_down)
       \<and> fetch_blockchain_fallback fallback_run s_hylo_down = (Inr m', s2')
       \<and> map_of m' ''CollateralRatio'' = Some JNull
       \<and> map_of m' ''note''
            = Some (JStr ''CollateralRatio unavailable - using blockchain approximation'')
       \<and> do_GET fallback_run s_init = (send_metrics m', s2')"
    by blast
  from first second show ?thesis by blast
qed

theorem null_collateral_ratio_counterexample:
  "fst (do_GET null_ratio_run s_init)
     = \<lparr>status = 200,
        resp_headers = [(''Content-type'', ''application/json''),
                        (''Access-Control-Allow-Origin'', ''*''),
                        (''Cache-Control'', ''public, max-age=60'')],
        body = JObj [(''HYusd_supply'', JNum 18000000), (''xSOL_price'', JNum (3 / 2)),
                     (''xSOL_supply'', JNum 1000000), (''CollateralRatio'', JNull),
                     (''SOL_price'', JNum 150), (''StabilityMode'', JObj []),
                     (''Collateral_TVL'', JNum 19500000), (''Collateral_TVL_SOL'', JNum 130000),
                     (''Effective_Leverage'', JNum 13), (''xSOL_icon_url'', JNull),
                     (''lastFetched'', JStr ''2024-01-01T00:00:00Z''),
                     (''source'', JStr ''hylo-api'')]\<rparr>"
  by (simp add: run_defs null_ratio_run_def s_init_def send_metrics_def run_world_def)

text \<open>
  C8. A record of the fallback always has \<open>HYusd_supply = 18000000\<close>, whatever the network
  answered, and its \<open>Collateral_TVL\<close> is \<open>18000000 + xSOL_price * xSOL_supply\<close>, where
  \<open>xSOL_supply\<close> is the supply that \<open>fetch_token_supply\<close> returned. In the run of the spec
  (supply 1000000, lever price 1.5) that is 19500000.
\<close>

theorem fallback_stable_supply_constant:
  assumes "fetch_blockchain_fallback w s = (Inr m, s')"
  shows "map_of m ''HYusd_supply'' = Some (JNum 18000000)
         \<and> (\<exists>p q. num_field m ''xSOL_price'' = Some p
                \<and> map_of m ''xSOL_supply'' = Some (JNum q)
                \<and> fst (fetch_token_supply w XSOL_MINT s) = Some q
                \<and> map_of m ''Collateral_TVL'' = Some (JNum (18000000 + p * q)))
         \<and> map_of m ''source'' = Some (JStr ''blockchain-fallback'')"
proof -
  from fallback_Inr [OF assms] obtain x s1 B P T TS EL where
    sup: "fetch_token_supply w XSOL_MINT s = (Some x, s1)" and
    d: "derived (JNum 18000000) P (JNum x) B = Inr (T, TS, EL)" and
    m: "m = [(''HYusd_supply'', JNum 18000000), (''xSOL_price'', P), (''xSOL_supply'', JNum x),
          (''CollateralRatio'', JNull), (''SOL_price'', B), (''StabilityMode'', JObj []),
          (''Collateral_TVL'', T), (''Collateral_TVL_SOL'', TS), (''Effective_Leverage'', EL),
          (''xSOL_icon_url'', JNull), (''lastFetched'', JStr (utcnow w @ ''Z'')),
          (''source'', JStr ''blockchain-fallback''),
          (''note'', JStr ''CollateralRatio unavailable - using blockchain approximation'')]"
    by blast
  from derived_Inr [OF d] obtain p where "py_num P = Some p" "T = JNum (18000000 + p * x)"
    by auto
  with sup show ?thesis unfolding m num_field_def by simp
qed

theorem fallback_stable_supply_constant_witness:
  "\<exists>m s'. fetch_blockchain_fallback fallback_run s_hylo_down = (Inr m, s')
     \<and> map_of m ''HYusd_supply'' = Some (JNum 18000000)
     \<and> num_field m ''xSOL_price'' = Some (3 / 2)
     \<and> map_of m ''xSOL_supply'' = Some (JNum 1000000)
     \<and> map_of m ''Collateral_TVL'' = Some (JNum 19500000)
     \<and> map_of m ''source'' = Some (JStr ''blockchain-fallback'')"
  using fallback_stable_supply_constant [OF fallback_run_fallback] fallback_run_fallback
  by (simp add: num_field_def)

end
